theory Spec2Isabelle
  imports Complex_Main "HOL-Library.Multiset" "HOL-Library.Char_ord" "HOL-Library.List_Lexorder"
begin

section \<open>Python values the script relies on\<close>

text \<open>
  The exceptions that the modelled code can raise. \<^verbatim>\<open>AssertionError\<close>, \<^verbatim>\<open>IndexError\<close>,
  \<^verbatim>\<open>KeyError\<close> and \<^verbatim>\<open>ValueError\<close> are raised by the script's own statements
  (\<^verbatim>\<open>assert\<close>, subscripting, \<^verbatim>\<open>min\<close> of an empty iterable); \<^verbatim>\<open>RuntimeError\<close> is what
  MONAI's \<^verbatim>\<open>apply_transform\<close> raises; \<open>LibraryError\<close> stands for any other exception
  raised inside an external library call (numpy, MONAI, torch, Lightning), tagged with
  the library's message.
\<close>

datatype error =
    AssertionError
  | IndexError
  | KeyError
  | ValueError
  | RuntimeError
  | LibraryError string

text \<open>
  Subscripting a Python list: a negative index counts from the end, an index out of range
  raises \<^verbatim>\<open>IndexError\<close>.
\<close>

definition py_index :: "'a list \<Rightarrow> int \<Rightarrow> error + 'a" where
  "py_index xs i =
     (if 0 \<le> i \<and> i < int (length xs) then Inr (xs ! nat i)
      else if i < 0 \<and> - int (length xs) \<le> i then Inr (xs ! nat (int (length xs) + i))
      else Inl IndexError)"

text \<open>\<^verbatim>\<open>min\<close> over an iterable of integers: \<^verbatim>\<open>ValueError\<close> when it is empty.\<close>

definition py_min :: "int list \<Rightarrow> error + int" where
  "py_min xs = (case xs of [] \<Rightarrow> Inl ValueError | y # ys \<Rightarrow> Inr (fold min ys y))"

text \<open>An exception in a subexpression is the exception of the whole expression.\<close>

definition and_then :: "error + 'x \<Rightarrow> ('x \<Rightarrow> error + 'y) \<Rightarrow> error + 'y" where
  "and_then r f = (case r of Inl e \<Rightarrow> Inl e | Inr x \<Rightarrow> f x)"

text \<open>
  Statements that may raise and that change a state \<open>'s\<close> (a random generator, the
  process's output): a statement maps the state to its outcome and the state it leaves
  behind. An exception ends the sequence at once and is handed on unchanged.
\<close>

type_synonym ('s, 'x) stmt = "'s \<Rightarrow> (error + 'x) \<times> 's"

definition ret :: "'x \<Rightarrow> ('s, 'x) stmt" where
  "ret x s = (Inr x, s)"

definition pure_stmt :: "error + 'x \<Rightarrow> ('s, 'x) stmt" where
  "pure_stmt r s = (r, s)"

definition seq :: "('s, 'x) stmt \<Rightarrow> ('x \<Rightarrow> ('s, 'y) stmt) \<Rightarrow> ('s, 'y) stmt" where
  "seq m f s = (case m s of (Inl e, s') \<Rightarrow> (Inl e, s') | (Inr x, s') \<Rightarrow> f x s')"

section \<open>PairedAndUnpairedDataset\<close>

text \<open>
  The generator \<^verbatim>\<open>self.R\<close> is a \<^verbatim>\<open>numpy.random.RandomState\<close>; its two methods used by
  the dataset are parameters of the model. \<open>rng_seed i\<close> is the state after
  \<^verbatim>\<open>R.seed(i)\<close>, which replaces the previous state whatever it was (or the exception
  numpy raises for a seed it rejects); \<open>rng_randint low high g\<close> is the outcome of
  \<^verbatim>\<open>R.randint(low, high)\<close> in state \<open>g\<close> together with the state after the draw.
\<close>

record 'g random_state =
  rng_seed :: "int \<Rightarrow> error + 'g"
  rng_randint :: "int \<Rightarrow> int \<Rightarrow> ('g, int) stmt"

text \<open>
  The dataset object. \<open>'k\<close> is the type of keys, \<open>'v\<close> the type of the values an item
  holds (file paths before the transform, whatever the transform returns after it).
\<close>

record ('k, 'v, 'g) dataset =
  ds_keys :: "'k list"
  ds_data :: "'v list list"
  ds_transform :: "(('k \<rightharpoonup> 'v) \<Rightarrow> error + ('k \<rightharpoonup> 'v)) option"
  ds_length :: "int option"
  ds_batch_size :: int
  ds_R :: 'g

text \<open>\<^verbatim>\<open>__len__\<close>: the result, and the object as the call leaves it.\<close>

definition dataset_len :: "('k, 'v, 'g) dataset \<Rightarrow> (error + int) \<times> ('k, 'v, 'g) dataset" where
  "dataset_len self =
     (case ds_length self of
        None \<Rightarrow> (py_min (map (\<lambda>dataset. int (length dataset)) (ds_data self)), self)
      | Some n \<Rightarrow> (Inr n, self))"

text \<open>\<^verbatim>\<open>self.R.seed(index)\<close> as a statement on the generator's state.\<close>

definition R_seed :: "'g random_state \<Rightarrow> int \<Rightarrow> ('g, unit) stmt" where
  "R_seed np index g = (case rng_seed np index of Inl e \<Rightarrow> (Inl e, g) | Inr g' \<Rightarrow> (Inr (), g'))"

text \<open>
  One assignment \<^verbatim>\<open>data[self.keys[k]] = self.data[k][i]\<close>: the right-hand side is
  evaluated first, then the key.
\<close>

definition assign_entry ::
  "('k, 'v, 'g) dataset \<Rightarrow> int \<Rightarrow> int \<Rightarrow> ('k \<rightharpoonup> 'v) \<Rightarrow> error + ('k \<rightharpoonup> 'v)" where
  "assign_entry self k i d =
     and_then (py_index (ds_data self) k) (\<lambda>stream.
     and_then (py_index stream i) (\<lambda>v.
     and_then (py_index (ds_keys self) k) (\<lambda>key.
     Inr (d(key \<mapsto> v)))))"

text \<open>\<^verbatim>\<open>self.R.randint(0, len(self.data[k]))\<close>.\<close>

definition draw_index :: "'g random_state \<Rightarrow> ('k, 'v, 'g) dataset \<Rightarrow> int \<Rightarrow> ('g, int) stmt" where
  "draw_index np self k =
     seq (pure_stmt (py_index (ds_data self) k))
       (\<lambda>stream. rng_randint np 0 (int (length stream)))"

text \<open>
  Lines 70 to 80 of \<^verbatim>\<open>_transform\<close>: the dictionary of the four selected entries, before
  the transform is applied. The state threaded through is the generator's.
\<close>

definition select_entries ::
  "'g random_state \<Rightarrow> ('k, 'v, 'g) dataset \<Rightarrow> int \<Rightarrow> ('g, 'k \<rightharpoonup> 'v) stmt" where
  "select_entries np self index =
     seq (R_seed np index) (\<lambda>_.
     seq (draw_index np self 0) (\<lambda>rand_idx.
     seq (pure_stmt (assign_entry self 0 rand_idx Map.empty)) (\<lambda>d0.
     seq (pure_stmt (assign_entry self 1 rand_idx d0)) (\<lambda>d1.
     seq (draw_index np self 2) (\<lambda>rand_idy.
     seq (pure_stmt (assign_entry self 2 rand_idy d1)) (\<lambda>d2.
     seq (draw_index np self 3) (\<lambda>rand_idz.
     pure_stmt (assign_entry self 3 rand_idz d2))))))))"

text \<open>
  MONAI's \<^verbatim>\<open>apply_transform(transform, data)\<close> on a dictionary: it calls the transform,
  and when the transform raises any exception it catches it and raises a
  \<^verbatim>\<open>RuntimeError\<close> from it.
\<close>

definition apply_transform ::
  "(('k \<rightharpoonup> 'v) \<Rightarrow> error + ('k \<rightharpoonup> 'v)) \<Rightarrow> ('k \<rightharpoonup> 'v) \<Rightarrow> error + ('k \<rightharpoonup> 'v)" where
  "apply_transform transform data =
     (case transform data of Inl e \<Rightarrow> Inl RuntimeError | Inr out \<Rightarrow> Inr out)"

text \<open>Lines 82 to 85: \<^verbatim>\<open>apply_transform\<close> when a transform was given.\<close>

definition apply_transform_opt ::
  "(('k \<rightharpoonup> 'v) \<Rightarrow> error + ('k \<rightharpoonup> 'v)) option \<Rightarrow> ('k \<rightharpoonup> 'v) \<Rightarrow> error + ('k \<rightharpoonup> 'v)" where
  "apply_transform_opt t d = (case t of None \<Rightarrow> Inr d | Some f \<Rightarrow> apply_transform f d)"

text \<open>
  \<^verbatim>\<open>_transform\<close>: the item (or the exception), and the object as the call leaves it; only
  the generator \<^verbatim>\<open>self.R\<close> changes.
\<close>

definition dataset_transform ::
  "'g random_state \<Rightarrow> ('k, 'v, 'g) dataset \<Rightarrow> int
     \<Rightarrow> (error + ('k \<rightharpoonup> 'v)) \<times> ('k, 'v, 'g) dataset" where
  "dataset_transform np self index =
     (case seq (select_entries np self index)
             (\<lambda>d. pure_stmt (apply_transform_opt (ds_transform self) d)) (ds_R self)
      of (r, g) \<Rightarrow> (r, self\<lparr>ds_R := g\<rparr>))"

text \<open>
  A small generator and a small dataset on which the model can be run: the generator's
  state is a counter, seeding sets it, and a draw from \<open>[low, high)\<close> reads it and
  advances it. The dataset has the four keys the data module uses and no transform.
\<close>

definition counter_rng :: "nat random_state" where
  "counter_rng =
     \<lparr>rng_seed = (\<lambda>i. if 0 \<le> i then Inr (nat i) else Inl ValueError),
      rng_randint = (\<lambda>low high g.
        if low < high then (Inr (low + int g mod (high - low)), Suc g)
        else (Inl ValueError, g))\<rparr>"

definition example_dataset :: "(string, string, nat) dataset" where
  "example_dataset =
     \<lparr>ds_keys = [''source'', ''target'', ''images'', ''labels''],
      ds_data = [[''a0'', ''a1''], [''b0'', ''b1''], [''c0'', ''c1'', ''c2''], [''d0'']],
      ds_transform = None,
      ds_length = None,
      ds_batch_size = 8,
      ds_R = 0\<rparr>"

section \<open>PairedAndUnpairedDataModule\<close>

text \<open>
  What the script hands to the outside, in the order it does so: the lines it prints, and
  its two seeding calls into MONAI and Lightning.
\<close>

datatype event =
    PrintInt int
  | PrintPaths "string list"
  | SetDeterminism int
  | SeedEverything int

definition emit :: "event \<Rightarrow> (event list, unit) stmt" where
  "emit e evs = (Inr (), evs @ [e])"

text \<open>
  The file system as the script sees it: \<open>path_join\<close> is \<^verbatim>\<open>os.path.join\<close> and
  \<open>glob_recursive pattern\<close> is \<^verbatim>\<open>glob.glob(pattern, recursive=True)\<close>, the paths
  matching the pattern in whatever order the directory scan yields them.
\<close>

record filesystem =
  path_join :: "string \<Rightarrow> string \<Rightarrow> string"
  glob_recursive :: "string \<Rightarrow> string list"

text \<open>
  \<^verbatim>\<open>glob_files\<close>, the function local to the constructor. \<^verbatim>\<open>sorted\<close> on strings is the
  lexicographic order on their characters, which is the order of \<open>string\<close> here.
\<close>

definition glob_files ::
  "filesystem \<Rightarrow> string list option \<Rightarrow> string \<Rightarrow> (event list, string list) stmt" where
  "glob_files fs folders extension =
     (case folders of
        None \<Rightarrow> pure_stmt (Inl AssertionError)
      | Some dirs \<Rightarrow>
          (let paths = map (\<lambda>folder. glob_recursive fs (path_join fs folder extension)) dirs;
               files = sort (concat paths)
           in seq (emit (PrintInt (int (length files)))) (\<lambda>_.
              seq (emit (PrintPaths (take 1 files))) (\<lambda>_.
              ret files))))"

text \<open>The constructor's arguments, and the object with the twelve file lists it adds.\<close>

record datamodule_args =
  train_ssource_dirs :: "string list option"
  train_starget_dirs :: "string list option"
  train_usource_dirs :: "string list option"
  train_utarget_dirs :: "string list option"
  val_ssource_dirs :: "string list option"
  val_starget_dirs :: "string list option"
  val_usource_dirs :: "string list option"
  val_utarget_dirs :: "string list option"
  test_ssource_dirs :: "string list option"
  test_starget_dirs :: "string list option"
  test_usource_dirs :: "string list option"
  test_utarget_dirs :: "string list option"
  dm_shape :: int
  dm_batch_size :: int
  dm_train_samples :: int
  dm_val_samples :: int
  dm_test_samples :: int

record datamodule =
  dm_args :: datamodule_args
  train_ssource_files :: "string list"
  train_starget_files :: "string list"
  train_usource_files :: "string list"
  train_utarget_files :: "string list"
  val_ssource_files :: "string list"
  val_starget_files :: "string list"
  val_usource_files :: "string list"
  val_utarget_files :: "string list"
  test_ssource_files :: "string list"
  test_starget_files :: "string list"
  test_usource_files :: "string list"
  test_utarget_files :: "string list"

definition png :: string where
  "png = ''**/*.png''"

definition datamodule_init ::
  "filesystem \<Rightarrow> datamodule_args \<Rightarrow> (event list, datamodule) stmt" where
  "datamodule_init fs a =
     seq (glob_files fs (train_ssource_dirs a) png) (\<lambda>f1.
     seq (glob_files fs (train_starget_dirs a) png) (\<lambda>f2.
     seq (glob_files fs (train_usource_dirs a) png) (\<lambda>f3.
     seq (glob_files fs (train_utarget_dirs a) png) (\<lambda>f4.
     seq (glob_files fs (val_ssource_dirs a) png) (\<lambda>f5.
     seq (glob_files fs (val_starget_dirs a) png) (\<lambda>f6.
     seq (glob_files fs (val_usource_dirs a) png) (\<lambda>f7.
     seq (glob_files fs (val_utarget_dirs a) png) (\<lambda>f8.
     seq (glob_files fs (test_ssource_dirs a) png) (\<lambda>f9.
     seq (glob_files fs (test_starget_dirs a) png) (\<lambda>f10.
     seq (glob_files fs (test_usource_dirs a) png) (\<lambda>f11.
     seq (glob_files fs (test_utarget_dirs a) png) (\<lambda>f12.
     ret
       \<lparr>dm_args = a,
        train_ssource_files = f1, train_starget_files = f2,
        train_usource_files = f3, train_utarget_files = f4,
        val_ssource_files = f5, val_starget_files = f6,
        val_usource_files = f7, val_utarget_files = f8,
        test_ssource_files = f9, test_starget_files = f10,
        test_usource_files = f11, test_utarget_files = f12\<rparr>))))))))))))"

text \<open>\<^verbatim>\<open>setup\<close>: one call of MONAI's \<^verbatim>\<open>set_determinism\<close> with the seed it is given.\<close>

definition datamodule_setup :: "int \<Rightarrow> (event list, unit) stmt" where
  "datamodule_setup seed = emit (SetDeterminism seed)"

text \<open>
  The claim's wording of what \<^verbatim>\<open>glob_files\<close> collects: the matches of the pattern in
  each directory, one directory after the other.
\<close>

definition per_directory_matches :: "filesystem \<Rightarrow> string list \<Rightarrow> string \<Rightarrow> string list" where
  "per_directory_matches fs dirs extension =
     concat (map (\<lambda>folder. glob_recursive fs (path_join fs folder extension)) dirs)"

definition sorted_matches :: "filesystem \<Rightarrow> string list \<Rightarrow> string \<Rightarrow> string list" where
  "sorted_matches fs dirs extension = sort (per_directory_matches fs dirs extension)"

text \<open>A file system with three directories, and constructor arguments that name them.\<close>

definition example_fs :: filesystem where
  "example_fs =
     \<lparr>path_join = (\<lambda>a b. a @ ''/'' @ b),
      glob_recursive = (\<lambda>pattern.
        if pattern = ''imgs/**/*.png'' then [''imgs/b.png'', ''imgs/a/c.png'']
        else if pattern = ''more/**/*.png'' then [''more/x.png'']
        else if pattern = ''lbls/**/*.png'' then [''lbls/b.png'', ''lbls/a/c.png'']
        else [])\<rparr>"

definition example_args :: datamodule_args where
  "example_args =
     \<lparr>train_ssource_dirs = Some [''imgs'', ''more''],
      train_starget_dirs = Some [''lbls''],
      train_usource_dirs = Some [''imgs'', ''more''],
      train_utarget_dirs = Some [''lbls''],
      val_ssource_dirs = Some [''imgs'', ''more''],
      val_starget_dirs = Some [''lbls''],
      val_usource_dirs = Some [''imgs'', ''more''],
      val_utarget_dirs = Some [''lbls''],
      test_ssource_dirs = Some [''imgs'', ''more''],
      test_starget_dirs = Some [''lbls''],
      test_usource_dirs = Some [''imgs'', ''more''],
      test_utarget_dirs = Some [''lbls''],
      dm_shape = 256, dm_batch_size = 8,
      dm_train_samples = 40000, dm_val_samples = 8000, dm_test_samples = 4000\<rparr>"

section \<open>The script\<close>

text \<open>
  The namespace \<^verbatim>\<open>hparams\<close> that \<^verbatim>\<open>parse_args\<close> returns: one field for each argument the
  script adds, and the arguments that \<^verbatim>\<open>Trainer.add_argparse_args\<close> adds, by name. The two
  floats are read as the numbers their literals denote; the script only passes them on.
\<close>

record hparams =
  hp_seed :: int
  hp_timesteps :: int
  hp_batch_size :: int
  hp_shape :: int
  hp_train_samples :: int
  hp_val_samples :: int
  hp_test_samples :: int
  hp_logsdir :: string
  hp_datadir :: string
  hp_epochs :: int
  hp_lr :: real
  hp_ckpt :: "string option"
  hp_weight_decay :: real
  hp_trainer :: "(string \<times> string) list"

text \<open>
  The command line after argparse has split it and converted each value with the
  argument's \<^verbatim>\<open>type\<close>: one constructor for each \<^verbatim>\<open>add_argument\<close> of the script.
\<close>

datatype cli_arg =
    ArgSeed int
  | ArgTimesteps int
  | ArgBatchSize int
  | ArgShape int
  | ArgTrainSamples int
  | ArgValSamples int
  | ArgTestSamples int
  | ArgLogsdir string
  | ArgDatadir string
  | ArgEpochs int
  | ArgLr real
  | ArgCkpt string
  | ArgWeightDecay real
  | ArgTrainer string string

text \<open>The \<^verbatim>\<open>default=\<close> of each argument, lines 382 to 396.\<close>

definition defaults :: hparams where
  "defaults =
     \<lparr>hp_seed = 42, hp_timesteps = 100, hp_batch_size = 8, hp_shape = 256,
      hp_train_samples = 40000, hp_val_samples = 8000, hp_test_samples = 4000,
      hp_logsdir = ''logs'', hp_datadir = ''data'', hp_epochs = 31, hp_lr = 1 / 10 ^ 4,
      hp_ckpt = None, hp_weight_decay = 1 / 10 ^ 4, hp_trainer = []\<rparr>"

fun set_arg :: "cli_arg \<Rightarrow> hparams \<Rightarrow> hparams" where
  "set_arg (ArgSeed n) hp = hp\<lparr>hp_seed := n\<rparr>"
| "set_arg (ArgTimesteps n) hp = hp\<lparr>hp_timesteps := n\<rparr>"
| "set_arg (ArgBatchSize n) hp = hp\<lparr>hp_batch_size := n\<rparr>"
| "set_arg (ArgShape n) hp = hp\<lparr>hp_shape := n\<rparr>"
| "set_arg (ArgTrainSamples n) hp = hp\<lparr>hp_train_samples := n\<rparr>"
| "set_arg (ArgValSamples n) hp = hp\<lparr>hp_val_samples := n\<rparr>"
| "set_arg (ArgTestSamples n) hp = hp\<lparr>hp_test_samples := n\<rparr>"
| "set_arg (ArgLogsdir p) hp = hp\<lparr>hp_logsdir := p\<rparr>"
| "set_arg (ArgDatadir p) hp = hp\<lparr>hp_datadir := p\<rparr>"
| "set_arg (ArgEpochs n) hp = hp\<lparr>hp_epochs := n\<rparr>"
| "set_arg (ArgLr x) hp = hp\<lparr>hp_lr := x\<rparr>"
| "set_arg (ArgCkpt p) hp = hp\<lparr>hp_ckpt := Some p\<rparr>"
| "set_arg (ArgWeightDecay x) hp = hp\<lparr>hp_weight_decay := x\<rparr>"
| "set_arg (ArgTrainer name v) hp = hp\<lparr>hp_trainer := hp_trainer hp @ [(name, v)]\<rparr>"

text \<open>\<^verbatim>\<open>parser.parse_args()\<close>: the defaults, overwritten from left to right.\<close>

definition parse_args :: "cli_arg list \<Rightarrow> hparams" where
  "parse_args argv = fold set_arg argv defaults"

text \<open>The fields \<^verbatim>\<open>DDMMLightningModule.__init__\<close> sets from \<^verbatim>\<open>hparams\<close>.\<close>

record lightning_module =
  lm_lr :: real
  lm_epochs :: int
  lm_weight_decay :: real
  lm_num_timesteps :: int
  lm_batch_size :: int
  lm_shape :: int
  lm_num_classes :: int
  lm_timesteps :: int
  lm_scheduler_num_train_timesteps :: int

text \<open>The keyword arguments of the three calls of \<^verbatim>\<open>DiffusionModelUNet\<close>, which are the same.\<close>

record unet_config =
  spatial_dims :: int
  in_channels :: int
  out_channels :: int
  num_channels :: "int list"
  attention_levels :: "bool list"
  num_res_blocks :: int
  num_head_channels :: int

definition unet_2d :: unet_config where
  "unet_2d =
     \<lparr>spatial_dims = 2, in_channels = 1, out_channels = 1,
      num_channels = [64, 128, 256, 512],
      attention_levels = [False, False, True, True],
      num_res_blocks = 1, num_head_channels = 256\<rparr>"

text \<open>The Lightning objects the script configures, by the keyword arguments it gives.\<close>

record model_checkpoint =
  mc_dirpath :: string
  mc_filename :: string
  mc_save_top_k :: int
  mc_save_last :: bool
  mc_every_n_epochs :: int

datatype callback = LearningRateMonitor string | ModelCheckpoint model_checkpoint

record tensorboard_logger =
  tb_save_dir :: string
  tb_log_graph :: bool

record trainer =
  tr_args :: hparams
  tr_max_epochs :: int
  tr_logger :: "tensorboard_logger list"
  tr_callbacks :: "callback list"
  tr_strategy :: string

text \<open>
  The constructors of the external libraries that the script and the module call. Each
  is a parameter: on the arguments it is given it either returns its object (\<open>Inr ()\<close>;
  the object is represented by those arguments) or raises. \<open>new_DiffusionInferer\<close> is
  given the scheduler, that is the number of timesteps it was built with;
  \<open>new_Trainer\<close> is \<^verbatim>\<open>Trainer.from_argparse_args\<close>.
\<close>

record libraries =
  new_DiffusionModelUNet :: "unet_config \<Rightarrow> error + unit"
  new_DDPMScheduler :: "int \<Rightarrow> error + unit"
  new_DiffusionInferer :: "int \<Rightarrow> error + unit"
  new_L1Loss :: "error + unit"
  new_ModelCheckpoint :: "model_checkpoint \<Rightarrow> error + unit"
  new_LearningRateMonitor :: "string \<Rightarrow> error + unit"
  new_TensorBoardLogger :: "tensorboard_logger \<Rightarrow> error + unit"
  new_Trainer :: "trainer \<Rightarrow> error + unit"

text \<open>
  \<^verbatim>\<open>DDMMLightningModule.__init__\<close>: the fields, then the three networks, the scheduler on
  \<^verbatim>\<open>hparams.timesteps\<close>, the inferer and the loss.
\<close>

definition module_init :: "libraries \<Rightarrow> hparams \<Rightarrow> error + lightning_module" where
  "module_init lib hp =
     and_then (new_DiffusionModelUNet lib unet_2d) (\<lambda>noise2space.
     and_then (new_DiffusionModelUNet lib unet_2d) (\<lambda>image2label.
     and_then (new_DiffusionModelUNet lib unet_2d) (\<lambda>label2image.
     and_then (new_DDPMScheduler lib (hp_timesteps hp)) (\<lambda>scheduler.
     and_then (new_DiffusionInferer lib (hp_timesteps hp)) (\<lambda>inferer.
     and_then (new_L1Loss lib) (\<lambda>loss_func.
     Inr \<lparr>lm_lr = hp_lr hp,
          lm_epochs = hp_epochs hp,
          lm_weight_decay = hp_weight_decay hp,
          lm_num_timesteps = hp_timesteps hp,
          lm_batch_size = hp_batch_size hp,
          lm_shape = hp_shape hp,
          lm_num_classes = 2,
          lm_timesteps = hp_timesteps hp,
          lm_scheduler_num_train_timesteps = hp_timesteps hp\<rparr>))))))"

text \<open>The call \<^verbatim>\<open>trainer.fit(model, datamodule, ckpt_path=...)\<close> that ends the script.\<close>

record fit_call =
  fit_trainer :: trainer
  fit_model :: lightning_module
  fit_datamodule :: datamodule
  fit_ckpt_path :: "string option"

text \<open>The directory lists of lines 404 to 462.\<close>

definition raw_images :: "filesystem \<Rightarrow> hparams \<Rightarrow> string list" where
  "raw_images fs hp =
     [path_join fs (hp_datadir hp) ''SpineXRVertSegmentation/T62020/20200501/raw/images'',
      path_join fs (hp_datadir hp) ''SpineXRVertSegmentation/T62022/20220501/raw/images'',
      path_join fs (hp_datadir hp) ''SpineXRVertSegmentation/T62021/20211101/raw/images'']"

definition raw_labels :: "filesystem \<Rightarrow> hparams \<Rightarrow> string list" where
  "raw_labels fs hp =
     [path_join fs (hp_datadir hp) ''SpineXRVertSegmentation/T62020/20200501/raw/labels'',
      path_join fs (hp_datadir hp) ''SpineXRVertSegmentation/T62022/20220501/raw/labels'',
      path_join fs (hp_datadir hp) ''SpineXRVertSegmentation/T62021/20211101/raw/labels'']"

definition script_args :: "filesystem \<Rightarrow> hparams \<Rightarrow> datamodule_args" where
  "script_args fs hp =
     (let train_ssource = raw_images fs hp;
          train_starget = raw_labels fs hp;
          train_usource = raw_images fs hp @
            [path_join fs (hp_datadir hp) ''SpineXRVertSegmentation/VinDr/v1/processed/train/images/'',
             path_join fs (hp_datadir hp) ''SpineXRVertSegmentation/VinDr/v1/processed/test/images/''];
          train_utarget = raw_labels fs hp;
          val_ssource = raw_images fs hp;
          val_starget = raw_labels fs hp;
          val_usource = raw_images fs hp @
            [path_join fs (hp_datadir hp) ''SpineXRVertSegmentation/VinDr/v1/processed/test/images/''];
          val_utarget = raw_labels fs hp
      in \<lparr>train_ssource_dirs = Some train_ssource,
          train_starget_dirs = Some train_starget,
          train_usource_dirs = Some train_usource,
          train_utarget_dirs = Some train_utarget,
          val_ssource_dirs = Some val_ssource,
          val_starget_dirs = Some val_starget,
          val_usource_dirs = Some val_usource,
          val_utarget_dirs = Some val_utarget,
          test_ssource_dirs = Some val_ssource,
          test_starget_dirs = Some val_starget,
          test_usource_dirs = Some val_usource,
          test_utarget_dirs = Some val_utarget,
          dm_shape = hp_shape hp,
          dm_batch_size = hp_batch_size hp,
          dm_train_samples = hp_train_samples hp,
          dm_val_samples = hp_val_samples hp,
          dm_test_samples = hp_test_samples hp\<rparr>)"

text \<open>
  The script from line 464 on, given the parsed namespace: it constructs the data module,
  calls its \<^verbatim>\<open>setup\<close>, constructs the model, seeds the application, constructs the
  callbacks, the logger and the trainer, and ends in the call of \<^verbatim>\<open>trainer.fit\<close>, which
  is its result here. An exception of a constructor ends it there.
\<close>

definition script :: "libraries \<Rightarrow> filesystem \<Rightarrow> hparams \<Rightarrow> (event list, fit_call) stmt" where
  "script lib fs hparams =
     seq (datamodule_init fs (script_args fs hparams)) (\<lambda>datamodule.
     seq (datamodule_setup (hp_seed hparams)) (\<lambda>_.
     seq (pure_stmt (module_init lib hparams)) (\<lambda>model.
     seq (emit (SeedEverything 42)) (\<lambda>_.
     (let checkpoint =
            \<lparr>mc_dirpath = hp_logsdir hparams,
             mc_filename = ''{epoch:02d}-{validation_loss_epoch:.2f}'',
             mc_save_top_k = - 1,
             mc_save_last = True,
             mc_every_n_epochs = 1\<rparr>
      in
     seq (pure_stmt (new_ModelCheckpoint lib checkpoint)) (\<lambda>_.
     seq (pure_stmt (new_LearningRateMonitor lib ''step'')) (\<lambda>_.
     (let checkpoint_callback = ModelCheckpoint checkpoint;
          lr_callback = LearningRateMonitor ''step'';
          tensorboard_logger = \<lparr>tb_save_dir = hp_logsdir hparams, tb_log_graph = True\<rparr>
      in
     seq (pure_stmt (new_TensorBoardLogger lib tensorboard_logger)) (\<lambda>_.
     (let trainer =
            \<lparr>tr_args = hparams,
             tr_max_epochs = hp_epochs hparams,
             tr_logger = [tensorboard_logger],
             tr_callbacks = [lr_callback, checkpoint_callback],
             tr_strategy = ''ddp_sharded''\<rparr>
      in
     seq (pure_stmt (new_Trainer lib trainer)) (\<lambda>_.
     ret \<lparr>fit_trainer = trainer,
          fit_model = model,
          fit_datamodule = datamodule,
          fit_ckpt_path = hp_ckpt hparams\<rparr>)))))))))))"

text \<open>The script from its first line: the command line, then the rest.\<close>

definition main ::
  "libraries \<Rightarrow> filesystem \<Rightarrow> cli_arg list \<Rightarrow> (event list, fit_call) stmt" where
  "main lib fs argv = script lib fs (parse_args argv)"

text \<open>
  Libraries to run the script with: the scheduler rejects a number of timesteps that is
  not positive, every other constructor accepts its arguments.
\<close>

definition example_lib :: libraries where
  "example_lib =
     \<lparr>new_DiffusionModelUNet = (\<lambda>_. Inr ()),
      new_DDPMScheduler = (\<lambda>n. if 0 < n then Inr () else Inl (LibraryError ''num_train_timesteps'')),
      new_DiffusionInferer = (\<lambda>_. Inr ()),
      new_L1Loss = Inr (),
      new_ModelCheckpoint = (\<lambda>_. Inr ()),
      new_LearningRateMonitor = (\<lambda>_. Inr ()),
      new_TensorBoardLogger = (\<lambda>_. Inr ()),
      new_Trainer = (\<lambda>_. Inr ())\<rparr>"

text \<open>The events that seed a random generator.\<close>

fun is_seeding :: "event \<Rightarrow> bool" where
  "is_seeding (SetDeterminism _) = True"
| "is_seeding (SeedEverything _) = True"
| "is_seeding _ = False"

text \<open>A command line that gives the seed twice.\<close>

definition example_argv :: "cli_arg list" where
  "example_argv =
     [ArgSeed 7, ArgTimesteps 50, ArgDatadir ''d'', ArgSeed 9, ArgEpochs 3, ArgLr (1 / 2),
      ArgBatchSize 4, ArgCkpt ''last.ckpt'', ArgLogsdir ''runs'']"

section \<open>DDMMLightningModule\<close>

text \<open>
  Tensors are values of a type \<open>'t\<close> about which nothing is assumed; the operations of
  torch, of the three networks and of the scheduler that \<^verbatim>\<open>_common_step\<close> calls are
  parameters. Operations that draw random numbers are statements on torch's generator
  state \<open>'w\<close>; the others are functions that may raise (a shape mismatch, say). A loss is a
  scalar, read as a real number.
\<close>

record ('t, 'w) torch =
  shape0 :: "'t \<Rightarrow> nat"
  randint :: "int \<Rightarrow> int \<Rightarrow> nat \<Rightarrow> ('w, 't) stmt"
  zeros :: "nat \<Rightarrow> 't"
  ones :: "nat \<Rightarrow> 't"
  randn_like :: "'t \<Rightarrow> ('w, 't) stmt"
  rand :: "nat \<Rightarrow> ('w, 't) stmt"
  times_int :: "'t \<Rightarrow> int \<Rightarrow> 't"
  plus_one :: "'t \<Rightarrow> 't"
  timestep_tensor :: "nat \<Rightarrow> 't"
  rescale :: "'t \<Rightarrow> 't"
  make_grid :: "'t list \<Rightarrow> error + 't"
  add_noise :: "'t \<Rightarrow> 't \<Rightarrow> 't \<Rightarrow> error + 't"
  scheduler_step :: "'t \<Rightarrow> nat \<Rightarrow> 't \<Rightarrow> ('w, 't \<times> 't) stmt"
  noise2space :: "'t \<Rightarrow> 't \<Rightarrow> 't \<Rightarrow> error + 't"
  image2label :: "'t \<Rightarrow> 't \<Rightarrow> error + 't"
  label2image :: "'t \<Rightarrow> 't \<Rightarrow> error + 't"
  loss_func :: "'t \<Rightarrow> 't \<Rightarrow> error + real"

text \<open>What a step leaves behind: torch's generator, and what it logged.\<close>

datatype 't logged =
    LogScalar string real bool
  | AddImage string 't int

record ('t, 'w) step_state =
  rng :: 'w
  logs :: "'t logged list"

definition on_rng :: "('w, 'x) stmt \<Rightarrow> (('t, 'w) step_state, 'x) stmt" where
  "on_rng m s = (case m (rng s) of (r, w) \<Rightarrow> (r, s\<lparr>rng := w\<rparr>))"

definition log_call :: "'t logged \<Rightarrow> (('t, 'w) step_state, unit) stmt" where
  "log_call e s = (Inr (), s\<lparr>logs := logs s @ [e]\<rparr>)"

text \<open>Subscripting a dictionary: \<^verbatim>\<open>KeyError\<close> for a key it does not have.\<close>

definition py_getitem :: "('k \<rightharpoonup> 'v) \<Rightarrow> 'k \<Rightarrow> error + 'v" where
  "py_getitem d k = (case d k of None \<Rightarrow> Inl KeyError | Some v \<Rightarrow> Inr v)"

text \<open>A \<^verbatim>\<open>for\<close> loop over a list that updates its variables \<open>x\<close>.\<close>

fun for_each :: "('a \<Rightarrow> 'x \<Rightarrow> ('s, 'x) stmt) \<Rightarrow> 'a list \<Rightarrow> 'x \<Rightarrow> ('s, 'x) stmt" where
  "for_each body [] x = ret x"
| "for_each body (t # ts) x = seq (body t x) (for_each body ts)"

text \<open>
  One round of the loop of lines 303 to 312, on the four samples
  \<^verbatim>\<open>(sample_source, sample_target, sample_prev, sample_next)\<close>.
\<close>

definition denoise_round ::
  "('t, 'w) torch \<Rightarrow> 't \<Rightarrow> 't \<Rightarrow> 't \<Rightarrow> 't \<Rightarrow> nat \<Rightarrow> 't \<times> 't \<times> 't \<times> 't
     \<Rightarrow> (('t, 'w) step_state, 't \<times> 't \<times> 't \<times> 't) stmt" where
  "denoise_round th class_source class_target class_prev class_next t samples =
     (case samples of (sample_source, sample_target, sample_prev, sample_next) \<Rightarrow>
      seq (pure_stmt (noise2space th sample_source (timestep_tensor th t) class_source)) (\<lambda>output_source.
      seq (pure_stmt (noise2space th sample_target (timestep_tensor th t) class_target)) (\<lambda>output_target.
      seq (on_rng (scheduler_step th output_source t sample_source)) (\<lambda>step_source.
      seq (on_rng (scheduler_step th output_target t sample_target)) (\<lambda>step_target.
      seq (pure_stmt (noise2space th sample_prev (timestep_tensor th t) class_prev)) (\<lambda>output_prev.
      seq (pure_stmt (noise2space th sample_next (timestep_tensor th t) class_next)) (\<lambda>output_next.
      seq (on_rng (scheduler_step th output_prev t sample_prev)) (\<lambda>step_prev.
      seq (on_rng (scheduler_step th output_next t sample_next)) (\<lambda>step_next.
      ret (fst step_source, fst step_target, fst step_prev, fst step_next))))))))))"

text \<open>\<^verbatim>\<open>range(n)\<close>: empty when \<open>n\<close> is not positive.\<close>

definition py_range :: "int \<Rightarrow> nat list" where
  "py_range n = [0..<nat n]"

text \<open>Lines 327 to 347: the samples rescaled, and on every tenth training batch an image.\<close>

definition visualize ::
  "('t, 'w) torch \<Rightarrow> string \<Rightarrow> int \<Rightarrow> int \<Rightarrow> 't list \<Rightarrow> 't list
     \<Rightarrow> (('t, 'w) step_state, unit) stmt" where
  "visualize th stage batch_idx global_step inputs samples =
     (let rescaled = map (rescale th) samples
      in if stage = ''train'' \<and> batch_idx mod 10 = 0
         then seq (pure_stmt (make_grid th (inputs @ rescaled))) (\<lambda>grid.
              log_call (AddImage (stage @ ''_samples'') grid (global_step div 10)))
         else ret ())"

text \<open>
  \<^verbatim>\<open>_common_step\<close>. \<open>self\<close> holds the module's fields, \<open>global_step\<close> is the trainer's
  counter the module reads; the result is the dictionary \<^verbatim>\<open>{'loss': loss}\<close>.
\<close>

definition common_step ::
  "('t, 'w) torch \<Rightarrow> lightning_module \<Rightarrow> int \<Rightarrow> (string \<rightharpoonup> 't) \<Rightarrow> int \<Rightarrow> string
     \<Rightarrow> (('t, 'w) step_state, (string \<times> real) list) stmt" where
  "common_step th self global_step batch batch_idx stage =
     seq (pure_stmt (py_getitem batch ''source'')) (\<lambda>source.
     seq (pure_stmt (py_getitem batch ''target'')) (\<lambda>target.
     seq (pure_stmt (py_getitem batch ''images'')) (\<lambda>images.
     seq (pure_stmt (py_getitem batch ''labels'')) (\<lambda>labels.
     (let batches = shape0 th source in
     seq (on_rng (randint th 0 (lm_scheduler_num_train_timesteps self) batches)) (\<lambda>timesteps.
     (let class_source = zeros th batches; class_target = ones th batches in
     seq (on_rng (randn_like th source)) (\<lambda>noise.
     seq (pure_stmt (add_noise th source noise timesteps)) (\<lambda>noisy_source.
     seq (pure_stmt (add_noise th target noise timesteps)) (\<lambda>noisy_target.
     seq (pure_stmt (noise2space th noisy_source timesteps class_source)) (\<lambda>noise_source_pred.
     seq (pure_stmt (noise2space th noisy_target timesteps class_target)) (\<lambda>noise_target_pred.
     seq (pure_stmt (loss_func th noise noise_source_pred)) (\<lambda>loss_source.
     seq (pure_stmt (loss_func th noise noise_target_pred)) (\<lambda>loss_target.
     (let super_loss = 0 + loss_source + loss_target in
     seq (on_rng (rand th batches)) (\<lambda>class_prob.
     (let class_prev = times_int th class_prob (lm_num_timesteps self);
          class_next = plus_one th class_prev in
     seq (for_each (denoise_round th class_source class_target class_prev class_next)
            (py_range (lm_num_timesteps self)) (noise, noise, noise, noise))
       (\<lambda>(sample_source, sample_target, sample_prev, sample_next).
     seq (pure_stmt (image2label th sample_prev class_prev)) (\<lambda>sample_prev_pred.
     seq (pure_stmt (label2image th sample_next class_next)) (\<lambda>sample_next_pred.
     seq (pure_stmt (loss_func th sample_prev sample_prev_pred)) (\<lambda>loss_prev.
     seq (pure_stmt (loss_func th sample_next sample_next_pred)) (\<lambda>loss_next.
     (let unsup_loss = 0 + loss_prev + loss_next in
     seq (log_call (LogScalar (stage @ ''_super_loss'') super_loss (stage = ''train''))) (\<lambda>_.
     seq (log_call (LogScalar (stage @ ''_unsup_loss'') unsup_loss (stage = ''train''))) (\<lambda>_.
     (let loss = super_loss + unsup_loss in
     seq (visualize th stage batch_idx global_step [source, target]
            [sample_source, sample_target, sample_prev, sample_next,
             sample_prev_pred, sample_next_pred]) (\<lambda>_.
     ret [(''loss'', loss)])))))))))))))))))))))))))))"

definition training_step ::
  "('t, 'w) torch \<Rightarrow> lightning_module \<Rightarrow> int \<Rightarrow> (string \<rightharpoonup> 't) \<Rightarrow> int
     \<Rightarrow> (('t, 'w) step_state, (string \<times> real) list) stmt" where
  "training_step th self global_step batch batch_idx =
     common_step th self global_step batch batch_idx ''train''"

definition validation_step ::
  "('t, 'w) torch \<Rightarrow> lightning_module \<Rightarrow> int \<Rightarrow> (string \<rightharpoonup> 't) \<Rightarrow> int
     \<Rightarrow> (('t, 'w) step_state, (string \<times> real) list) stmt" where
  "validation_step th self global_step batch batch_idx =
     common_step th self global_step batch batch_idx ''validation''"

definition test_step ::
  "('t, 'w) torch \<Rightarrow> lightning_module \<Rightarrow> int \<Rightarrow> (string \<rightharpoonup> 't) \<Rightarrow> int
     \<Rightarrow> (('t, 'w) step_state, (string \<times> real) list) stmt" where
  "test_step th self global_step batch batch_idx =
     common_step th self global_step batch batch_idx ''test''"

section \<open>The data loaders\<close>

text \<open>
  A value held by an item: a file path before the transform, a tensor after it. The
  pipeline of MONAI transforms (\<^verbatim>\<open>Compose([...])\<close>) is a parameter, as is the generator
  the new dataset starts with.
\<close>

datatype 't pyval = Path string | Tensor 't

record ('t, 'g) dataloader =
  dl_dataset :: "(string, 't pyval, 'g) dataset"
  dl_batch_size :: int
  dl_num_workers :: int
  dl_shuffle :: bool

definition train_dataloader ::
  "((string \<rightharpoonup> 't pyval) \<Rightarrow> error + (string \<rightharpoonup> 't pyval)) \<Rightarrow> 'g \<Rightarrow> datamodule
     \<Rightarrow> ('t, 'g) dataloader" where
  "train_dataloader train_transforms R0 self =
     (let train_datasets =
            \<lparr>ds_keys = [''source'', ''target'', ''images'', ''labels''],
             ds_data = [map Path (train_ssource_files self), map Path (train_starget_files self),
                        map Path (train_usource_files self), map Path (train_utarget_files self)],
             ds_transform = Some train_transforms,
             ds_length = Some (dm_train_samples (dm_args self)),
             ds_batch_size = dm_batch_size (dm_args self),
             ds_R = R0\<rparr>
      in \<lparr>dl_dataset = train_datasets,
          dl_batch_size = dm_batch_size (dm_args self),
          dl_num_workers = 4,
          dl_shuffle = True\<rparr>)"

definition val_dataloader ::
  "((string \<rightharpoonup> 't pyval) \<Rightarrow> error + (string \<rightharpoonup> 't pyval)) \<Rightarrow> 'g \<Rightarrow> datamodule
     \<Rightarrow> ('t, 'g) dataloader" where
  "val_dataloader val_transforms R0 self =
     (let val_datasets =
            \<lparr>ds_keys = [''source'', ''target'', ''images'', ''labels''],
             ds_data = [map Path (val_ssource_files self), map Path (val_starget_files self),
                        map Path (val_usource_files self), map Path (val_utarget_files self)],
             ds_transform = Some val_transforms,
             ds_length = Some (dm_val_samples (dm_args self)),
             ds_batch_size = dm_batch_size (dm_args self),
             ds_R = R0\<rparr>
      in \<lparr>dl_dataset = val_datasets,
          dl_batch_size = dm_batch_size (dm_args self),
          dl_num_workers = 4,
          dl_shuffle = True\<rparr>)"

text \<open>A data module as the constructor leaves it on the example file system.\<close>

definition example_datamodule :: datamodule where
  "example_datamodule =
     \<lparr>dm_args = example_args,
      train_ssource_files = [''imgs/a/c.png'', ''imgs/b.png'', ''more/x.png''],
      train_starget_files = [''lbls/a/c.png'', ''lbls/b.png''],
      train_usource_files = [''imgs/a/c.png'', ''imgs/b.png'', ''more/x.png''],
      train_utarget_files = [''lbls/a/c.png'', ''lbls/b.png''],
      val_ssource_files = [''imgs/a/c.png'', ''imgs/b.png'', ''more/x.png''],
      val_starget_files = [''lbls/a/c.png'', ''lbls/b.png''],
      val_usource_files = [''imgs/a/c.png'', ''imgs/b.png'', ''more/x.png''],
      val_utarget_files = [''lbls/a/c.png'', ''lbls/b.png''],
      test_ssource_files = [''imgs/a/c.png'', ''imgs/b.png'', ''more/x.png''],
      test_starget_files = [''lbls/a/c.png'', ''lbls/b.png''],
      test_usource_files = [''imgs/a/c.png'', ''imgs/b.png'', ''more/x.png''],
      test_utarget_files = [''lbls/a/c.png'', ''lbls/b.png'']\<rparr>"

section \<open>A torch to run a step on\<close>

text \<open>
  A torch on which the model can be run: a tensor is a single integer, the generator a
  counter. The module is the one constructed for two timesteps.
\<close>

definition toy_torch :: "(int, nat) torch" where
  "toy_torch =
     \<lparr>shape0 = (\<lambda>_. 1),
      randint = (\<lambda>low high n w.
        if low < high then (Inr (low + int w mod (high - low)), Suc w)
        else (Inl ValueError, w)),
      zeros = (\<lambda>_. 0),
      ones = (\<lambda>_. 1),
      randn_like = (\<lambda>x w. (Inr (int w + 2), Suc w)),
      rand = (\<lambda>n w. (Inr 1, Suc w)),
      times_int = (\<lambda>x n. x * n),
      plus_one = (\<lambda>x. x + 1),
      timestep_tensor = int,
      rescale = (\<lambda>x. x),
      make_grid = (\<lambda>xs. Inr (sum_list xs)),
      add_noise = (\<lambda>x noise t. Inr (x + noise)),
      scheduler_step = (\<lambda>out t x w. (Inr (x - out, x), w)),
      noise2space = (\<lambda>x t c. Inr (t + c)),
      image2label = (\<lambda>x t. Inr (x + 1)),
      label2image = (\<lambda>x t. Inr (x - 2)),
      loss_func = (\<lambda>a b. Inr (\<bar>real_of_int a - real_of_int b\<bar>))\<rparr>"

definition toy_module :: lightning_module where
  "toy_module =
     \<lparr>lm_lr = 1 / 10 ^ 4, lm_epochs = 31, lm_weight_decay = 1 / 10 ^ 4,
      lm_num_timesteps = 2, lm_batch_size = 8, lm_shape = 256, lm_num_classes = 2,
      lm_timesteps = 2, lm_scheduler_num_train_timesteps = 2\<rparr>"

definition toy_batch :: "string \<rightharpoonup> int" where
  "toy_batch = [''source'' \<mapsto> 5, ''target'' \<mapsto> 3, ''images'' \<mapsto> 0, ''labels'' \<mapsto> 0]"

definition toy_transforms :: "(string \<rightharpoonup> int pyval) \<Rightarrow> error + (string \<rightharpoonup> int pyval)" where
  "toy_transforms d = Inr d"

section \<open>Where exceptions come from\<close>







section \<open>Sequencing\<close>

lemma seq_Inl: "m s = (Inl e, s') \<Longrightarrow> seq m f s = (Inl e, s')"
  by (simp add: seq_def)

lemma seq_Inr: "m s = (Inr x, s') \<Longrightarrow> seq m f s = f x s'"
  by (simp add: seq_def)

lemma seq_result:
  "seq m f s = (Inr y, s'') \<longleftrightarrow> (\<exists>x s'. m s = (Inr x, s') \<and> f x s' = (Inr y, s''))"
  by (auto simp: seq_def split: prod.splits sum.splits)

lemma pure_stmt_result: "pure_stmt r s = (Inr x, s') \<longleftrightarrow> r = Inr x \<and> s' = s"
  by (auto simp: pure_stmt_def)

lemma and_then_result: "and_then r f = Inr y \<longleftrightarrow> (\<exists>x. r = Inr x \<and> f x = Inr y)"
  by (cases r) (simp_all add: and_then_def)

lemma ret_result: "ret x s = (Inr y, s') \<longleftrightarrow> y = x \<and> s' = s"
  by (auto simp: ret_def)

section \<open>The dataset's length\<close>

lemma py_min_Min: "py_min (y # ys) = Inr (Min (set (y # ys)))"
  using Min.set_eq_fold[of y ys] by (simp add: py_min_def)

text \<open>
  C4. \<^verbatim>\<open>__len__\<close> returns the \<^verbatim>\<open>length\<close> given to the constructor when there is one;
  without it, on four data streams, it returns the least of their four lengths; and the
  call leaves the dataset as it was.
\<close>

theorem dataset_len_spec:
  "(ds_length self = Some n \<longrightarrow> dataset_len self = (Inr n, self)) \<and>
   (ds_length self = None \<and> ds_data self = [a, b, c, d] \<longrightarrow>
      dataset_len self =
        (Inr (Min {int (length a), int (length b), int (length c), int (length d)}), self)) \<and>
   snd (dataset_len self) = self"
  by (auto simp: dataset_len_def py_min_Min split: option.splits)

theorem dataset_len_spec_witness:
  "dataset_len (example_dataset\<lparr>ds_length := Some 40000\<rparr>)
     = (Inr 40000, example_dataset\<lparr>ds_length := Some 40000\<rparr>) \<and>
   dataset_len example_dataset = (Inr 1, example_dataset) \<and>
   snd (dataset_len example_dataset) = example_dataset"
  using dataset_len_spec [of "example_dataset\<lparr>ds_length := Some 40000\<rparr>" 40000]
    dataset_len_spec [of example_dataset 0 "[''a0'', ''a1'']" "[''b0'', ''b1'']"
      "[''c0'', ''c1'', ''c2'']" "[''d0'']"]
  by (simp add: example_dataset_def)

section \<open>Selecting an item\<close>

lemma R_seed_result: "R_seed np index g = (Inr u, g') \<longleftrightarrow> rng_seed np index = Inr g'"
  by (cases "rng_seed np index") (simp_all add: R_seed_def)

lemma assign_entry_result:
  "assign_entry self k i d = Inr d' \<longleftrightarrow>
     (\<exists>stream v key. py_index (ds_data self) k = Inr stream \<and> py_index stream i = Inr v \<and>
        py_index (ds_keys self) k = Inr key \<and> d' = d(key \<mapsto> v))"
  by (auto simp: assign_entry_def and_then_result)

lemma draw_index_result:
  "draw_index np self k g = (Inr i, g') \<longleftrightarrow>
     (\<exists>stream. py_index (ds_data self) k = Inr stream \<and>
        rng_randint np 0 (int (length stream)) g = (Inr i, g'))"
  by (auto simp: draw_index_def seq_result pure_stmt_result)

lemma select_entries_result:
  assumes "select_entries np self index g = (Inr d, g')"
  shows "\<exists>g0 g1 g2 s0 s1 s2 s3 k0 k1 k2 k3 i j k v0 v1 v2 v3.
      rng_seed np index = Inr g0 \<and>
      py_index (ds_data self) 0 = Inr s0 \<and> py_index (ds_data self) 1 = Inr s1 \<and>
      py_index (ds_data self) 2 = Inr s2 \<and> py_index (ds_data self) 3 = Inr s3 \<and>
      py_index (ds_keys self) 0 = Inr k0 \<and> py_index (ds_keys self) 1 = Inr k1 \<and>
      py_index (ds_keys self) 2 = Inr k2 \<and> py_index (ds_keys self) 3 = Inr k3 \<and>
      rng_randint np 0 (int (length s0)) g0 = (Inr i, g1) \<and>
      rng_randint np 0 (int (length s2)) g1 = (Inr j, g2) \<and>
      rng_randint np 0 (int (length s3)) g2 = (Inr k, g') \<and>
      py_index s0 i = Inr v0 \<and> py_index s1 i = Inr v1 \<and>
      py_index s2 j = Inr v2 \<and> py_index s3 k = Inr v3 \<and>
      d = [k0 \<mapsto> v0, k1 \<mapsto> v1, k2 \<mapsto> v2, k3 \<mapsto> v3]"
  using assms unfolding select_entries_def
  apply (simp only: seq_result pure_stmt_result R_seed_result draw_index_result
      assign_entry_result)
  apply (elim exE conjE)
  apply simp
  done

lemma select_entries_seeded:
  "fst (select_entries np self index g1) = fst (select_entries np self index g2)"
  unfolding select_entries_def
  by (cases "rng_seed np index") (simp_all add: seq_def R_seed_def)

lemma select_entries_ignores_R:
  "select_entries np (self\<lparr>ds_R := g\<rparr>) index = select_entries np self index"
  by (simp add: select_entries_def draw_index_def assign_entry_def)



lemma select_entries_built:
  assumes "\<exists>g0 g1 g2 s0 s1 s2 s3 k0 k1 k2 k3 i j k v0 v1 v2 v3.
      rng_seed np index = Inr g0 \<and>
      py_index (ds_data self) 0 = Inr s0 \<and> py_index (ds_data self) 1 = Inr s1 \<and>
      py_index (ds_data self) 2 = Inr s2 \<and> py_index (ds_data self) 3 = Inr s3 \<and>
      py_index (ds_keys self) 0 = Inr k0 \<and> py_index (ds_keys self) 1 = Inr k1 \<and>
      py_index (ds_keys self) 2 = Inr k2 \<and> py_index (ds_keys self) 3 = Inr k3 \<and>
      rng_randint np 0 (int (length s0)) g0 = (Inr i, g1) \<and>
      rng_randint np 0 (int (length s2)) g1 = (Inr j, g2) \<and>
      rng_randint np 0 (int (length s3)) g2 = (Inr k, g') \<and>
      py_index s0 i = Inr v0 \<and> py_index s1 i = Inr v1 \<and>
      py_index s2 j = Inr v2 \<and> py_index s3 k = Inr v3 \<and>
      d = [k0 \<mapsto> v0, k1 \<mapsto> v1, k2 \<mapsto> v2, k3 \<mapsto> v3]"
  shows "select_entries np self index g = (Inr d, g')"
proof -
  from assms obtain g0 g1 g2 s0 s1 s2 s3 k0 k1 k2 k3 i j k v0 v1 v2 v3 where
      "rng_seed np index = Inr g0"
      "py_index (ds_data self) 0 = Inr s0" "py_index (ds_data self) 1 = Inr s1"
      "py_index (ds_data self) 2 = Inr s2" "py_index (ds_data self) 3 = Inr s3"
      "py_index (ds_keys self) 0 = Inr k0" "py_index (ds_keys self) 1 = Inr k1"
      "py_index (ds_keys self) 2 = Inr k2" "py_index (ds_keys self) 3 = Inr k3"
      "rng_randint np 0 (int (length s0)) g0 = (Inr i, g1)"
      "rng_randint np 0 (int (length s2)) g1 = (Inr j, g2)"
      "rng_randint np 0 (int (length s3)) g2 = (Inr k, g')"
      "py_index s0 i = Inr v0" "py_index s1 i = Inr v1"
      "py_index s2 j = Inr v2" "py_index s3 k = Inr v3"
      "d = [k0 \<mapsto> v0, k1 \<mapsto> v1, k2 \<mapsto> v2, k3 \<mapsto> v3]"
    by blast
  then show ?thesis
    by (simp add: select_entries_def seq_def pure_stmt_def R_seed_def draw_index_def
        assign_entry_def and_then_def)
qed

lemma select_entries_seed_fails:
  "rng_seed np index = Inl e \<Longrightarrow> select_entries np self index g = (Inl e, g)"
  by (simp add: select_entries_def seq_def R_seed_def)

text \<open>
  C3. \<^verbatim>\<open>_transform\<close> seeds the generator with the index before it draws: whatever state
  \<open>g\<close> the generator was in, the selection returns a dictionary exactly when seeding
  with the index gives a state \<open>g0\<close> from which the three draws and the four
  subscripts succeed, and the dictionary is then the quadruple of paths found at the
  indices drawn from \<open>g0\<close>; when seeding raises, that exception is the outcome. So the
  outcome is the same from any two generator states, and a second call with the same
  index, on the dataset as the first call left it, selects what the first call selected.
  The item \<^verbatim>\<open>_transform\<close> returns is that selection, passed through the transform when
  one was given, and the object keeps the generator as the selection left it.
\<close>

theorem selection_deterministic:
  "(select_entries np self index g = (Inr d, g') \<longleftrightarrow>
     (\<exists>g0 g1 g2 s0 s1 s2 s3 k0 k1 k2 k3 i j k v0 v1 v2 v3.
      rng_seed np index = Inr g0 \<and>
      py_index (ds_data self) 0 = Inr s0 \<and> py_index (ds_data self) 1 = Inr s1 \<and>
      py_index (ds_data self) 2 = Inr s2 \<and> py_index (ds_data self) 3 = Inr s3 \<and>
      py_index (ds_keys self) 0 = Inr k0 \<and> py_index (ds_keys self) 1 = Inr k1 \<and>
      py_index (ds_keys self) 2 = Inr k2 \<and> py_index (ds_keys self) 3 = Inr k3 \<and>
      rng_randint np 0 (int (length s0)) g0 = (Inr i, g1) \<and>
      rng_randint np 0 (int (length s2)) g1 = (Inr j, g2) \<and>
      rng_randint np 0 (int (length s3)) g2 = (Inr k, g') \<and>
      py_index s0 i = Inr v0 \<and> py_index s1 i = Inr v1 \<and>
      py_index s2 j = Inr v2 \<and> py_index s3 k = Inr v3 \<and>
      d = [k0 \<mapsto> v0, k1 \<mapsto> v1, k2 \<mapsto> v2, k3 \<mapsto> v3])) \<and>
   (rng_seed np index = Inl e \<longrightarrow> select_entries np self index g = (Inl e, g)) \<and>
   fst (select_entries np self index ga) = fst (select_entries np self index gb) \<and>
   (case dataset_transform np self index of (r, self1) \<Rightarrow>
      fst (select_entries np self1 index (ds_R self1)) =
      fst (select_entries np self index (ds_R self))) \<and>
   fst (dataset_transform np self index) =
     and_then (fst (select_entries np self index (ds_R self)))
       (apply_transform_opt (ds_transform self)) \<and>
   snd (dataset_transform np self index) =
     self\<lparr>ds_R := snd (select_entries np self index (ds_R self))\<rparr>"
proof -
  have iff: "select_entries np self index g = (Inr d, g') \<longleftrightarrow>
     (\<exists>g0 g1 g2 s0 s1 s2 s3 k0 k1 k2 k3 i j k v0 v1 v2 v3.
      rng_seed np index = Inr g0 \<and>
      py_index (ds_data self) 0 = Inr s0 \<and> py_index (ds_data self) 1 = Inr s1 \<and>
      py_index (ds_data self) 2 = Inr s2 \<and> py_index (ds_data self) 3 = Inr s3 \<and>
      py_index (ds_keys self) 0 = Inr k0 \<and> py_index (ds_keys self) 1 = Inr k1 \<and>
      py_index (ds_keys self) 2 = Inr k2 \<and> py_index (ds_keys self) 3 = Inr k3 \<and>
      rng_randint np 0 (int (length s0)) g0 = (Inr i, g1) \<and>
      rng_randint np 0 (int (length s2)) g1 = (Inr j, g2) \<and>
      rng_randint np 0 (int (length s3)) g2 = (Inr k, g') \<and>
      py_index s0 i = Inr v0 \<and> py_index s1 i = Inr v1 \<and>
      py_index s2 j = Inr v2 \<and> py_index s3 k = Inr v3 \<and>
      d = [k0 \<mapsto> v0, k1 \<mapsto> v1, k2 \<mapsto> v2, k3 \<mapsto> v3])"
    by (rule iffI [OF select_entries_result select_entries_built])
  have again: "case dataset_transform np self index of (r, self1) \<Rightarrow>
      fst (select_entries np self1 index (ds_R self1)) =
      fst (select_entries np self index (ds_R self))"
    using select_entries_seeded [of np self index]
    by (auto simp: dataset_transform_def select_entries_ignores_R split: prod.splits)
  have item: "fst (dataset_transform np self index) =
     and_then (fst (select_entries np self index (ds_R self)))
       (apply_transform_opt (ds_transform self))"
    by (cases "select_entries np self index (ds_R self)")
      (auto simp: dataset_transform_def seq_def pure_stmt_def and_then_def split: sum.splits)
  have object: "snd (dataset_transform np self index) =
     self\<lparr>ds_R := snd (select_entries np self index (ds_R self))\<rparr>"
    by (cases "select_entries np self index (ds_R self)")
      (auto simp: dataset_transform_def seq_def pure_stmt_def split: sum.splits)
  have fails: "rng_seed np index = Inl e \<longrightarrow> select_entries np self index g = (Inl e, g)"
    by (rule impI) (rule select_entries_seed_fails)
  show ?thesis
    by (rule conjI [OF iff conjI [OF fails conjI [OF select_entries_seeded
          conjI [OF again conjI [OF item object]]]]])
qed

text \<open>
  On the example, index 1 selects the same four paths from generator state 0 and from
  generator state 17, index 2 selects four others, and the seed \<open>- 1\<close>, which the counter
  rejects, is the outcome of the call.
\<close>

theorem selection_deterministic_witness:
  "select_entries counter_rng example_dataset 1 0 =
     (Inr [''source'' \<mapsto> ''a1'', ''target'' \<mapsto> ''b1'', ''images'' \<mapsto> ''c2'',
           ''labels'' \<mapsto> ''d0''], 4) \<and>
   select_entries counter_rng example_dataset 1 17 =
     (Inr [''source'' \<mapsto> ''a1'', ''target'' \<mapsto> ''b1'', ''images'' \<mapsto> ''c2'',
           ''labels'' \<mapsto> ''d0''], 4) \<and>
   select_entries counter_rng example_dataset 2 0 =
     (Inr [''source'' \<mapsto> ''a0'', ''target'' \<mapsto> ''b0'', ''images'' \<mapsto> ''c0'',
           ''labels'' \<mapsto> ''d0''], 5) \<and>
   select_entries counter_rng example_dataset (- 1) 17 = (Inl ValueError, 17)"
proof -
  note run = select_entries_def seq_def pure_stmt_def R_seed_def draw_index_def
    assign_entry_def and_then_def py_index_def counter_rng_def example_dataset_def
  have one: "select_entries counter_rng example_dataset 1 0 =
     (Inr [''source'' \<mapsto> ''a1'', ''target'' \<mapsto> ''b1'', ''images'' \<mapsto> ''c2'',
           ''labels'' \<mapsto> ''d0''], 4)"
    by (simp add: run)
  have cond: "\<exists>g0 g1 g2 s0 s1 s2 s3 k0 k1 k2 k3 i j k v0 v1 v2 v3.
      rng_seed counter_rng 1 = Inr g0 \<and>
      py_index (ds_data example_dataset) 0 = Inr s0 \<and> py_index (ds_data example_dataset) 1 = Inr s1 \<and>
      py_index (ds_data example_dataset) 2 = Inr s2 \<and> py_index (ds_data example_dataset) 3 = Inr s3 \<and>
      py_index (ds_keys example_dataset) 0 = Inr k0 \<and> py_index (ds_keys example_dataset) 1 = Inr k1 \<and>
      py_index (ds_keys example_dataset) 2 = Inr k2 \<and> py_index (ds_keys example_dataset) 3 = Inr k3 \<and>
      rng_randint counter_rng 0 (int (length s0)) g0 = (Inr i, g1) \<and>
      rng_randint counter_rng 0 (int (length s2)) g1 = (Inr j, g2) \<and>
      rng_randint counter_rng 0 (int (length s3)) g2 = (Inr k, 4) \<and>
      py_index s0 i = Inr v0 \<and> py_index s1 i = Inr v1 \<and>
      py_index s2 j = Inr v2 \<and> py_index s3 k = Inr v3 \<and>
      [''source'' \<mapsto> ''a1'', ''target'' \<mapsto> ''b1'', ''images'' \<mapsto> ''c2'',
          ''labels'' \<mapsto> ''d0''] = [k0 \<mapsto> v0, k1 \<mapsto> v1, k2 \<mapsto> v2, k3 \<mapsto> v3]"
    by (rule selection_deterministic [of counter_rng example_dataset 1 0
        "[''source'' \<mapsto> ''a1'', ''target'' \<mapsto> ''b1'', ''images'' \<mapsto> ''c2'',
          ''labels'' \<mapsto> ''d0'']" 4,
        THEN conjunct1, THEN iffD1, OF one])
  have other: "select_entries counter_rng example_dataset 1 17 =
     (Inr [''source'' \<mapsto> ''a1'', ''target'' \<mapsto> ''b1'', ''images'' \<mapsto> ''c2'',
           ''labels'' \<mapsto> ''d0''], 4)"
    by (rule selection_deterministic [of counter_rng example_dataset 1 17
        "[''source'' \<mapsto> ''a1'', ''target'' \<mapsto> ''b1'', ''images'' \<mapsto> ''c2'',
          ''labels'' \<mapsto> ''d0'']" 4,
        THEN conjunct1, THEN iffD2, OF cond])
  have two: "select_entries counter_rng example_dataset 2 0 =
     (Inr [''source'' \<mapsto> ''a0'', ''target'' \<mapsto> ''b0'', ''images'' \<mapsto> ''c0'',
           ''labels'' \<mapsto> ''d0''], 5)"
    by (simp add: run)
  have seed: "rng_seed counter_rng (- 1) = Inl ValueError"
    by (simp add: counter_rng_def)
  have bad: "select_entries counter_rng example_dataset (- 1) 17 = (Inl ValueError, 17)"
    by (rule selection_deterministic [where np = counter_rng and self = example_dataset
        and index = "- 1" and g = 17 and e = ValueError,
        THEN conjunct2, THEN conjunct1, THEN mp, OF seed])
  from one other two bad show ?thesis by blast
qed

section \<open>The file lists of the data module\<close>

lemma glob_files_result:
  "glob_files fs folders ext evs = (Inr files, evs') \<longleftrightarrow>
     (\<exists>dirs. folders = Some dirs \<and> files = sort (per_directory_matches fs dirs ext) \<and>
        evs' = evs @ [PrintInt (int (length files)), PrintPaths (take 1 files)])"
  by (cases folders)
    (auto simp: glob_files_def pure_stmt_def seq_def emit_def ret_def
      per_directory_matches_def Let_def)

lemma datamodule_init_result:
  assumes "datamodule_init fs a evs = (Inr dm, evs')"
  shows "dm_args dm = a \<and>
      Some (train_ssource_files dm) = map_option (\<lambda>dirs. sorted_matches fs dirs png) (train_ssource_dirs a) \<and>
      Some (train_starget_files dm) = map_option (\<lambda>dirs. sorted_matches fs dirs png) (train_starget_dirs a) \<and>
      Some (train_usource_files dm) = map_option (\<lambda>dirs. sorted_matches fs dirs png) (train_usource_dirs a) \<and>
      Some (train_utarget_files dm) = map_option (\<lambda>dirs. sorted_matches fs dirs png) (train_utarget_dirs a) \<and>
      Some (val_ssource_files dm) = map_option (\<lambda>dirs. sorted_matches fs dirs png) (val_ssource_dirs a) \<and>
      Some (val_starget_files dm) = map_option (\<lambda>dirs. sorted_matches fs dirs png) (val_starget_dirs a) \<and>
      Some (val_usource_files dm) = map_option (\<lambda>dirs. sorted_matches fs dirs png) (val_usource_dirs a) \<and>
      Some (val_utarget_files dm) = map_option (\<lambda>dirs. sorted_matches fs dirs png) (val_utarget_dirs a) \<and>
      Some (test_ssource_files dm) = map_option (\<lambda>dirs. sorted_matches fs dirs png) (test_ssource_dirs a) \<and>
      Some (test_starget_files dm) = map_option (\<lambda>dirs. sorted_matches fs dirs png) (test_starget_dirs a) \<and>
      Some (test_usource_files dm) = map_option (\<lambda>dirs. sorted_matches fs dirs png) (test_usource_dirs a) \<and>
      Some (test_utarget_files dm) = map_option (\<lambda>dirs. sorted_matches fs dirs png) (test_utarget_dirs a)"
  using assms unfolding datamodule_init_def sorted_matches_def
  apply (simp only: seq_result glob_files_result)
  apply (elim exE conjE)
  apply (auto simp add: ret_def)
  done

lemma datamodule_init_total:
  assumes "train_ssource_dirs a \<noteq> None \<and> train_starget_dirs a \<noteq> None \<and>
    train_usource_dirs a \<noteq> None \<and> train_utarget_dirs a \<noteq> None \<and>
    val_ssource_dirs a \<noteq> None \<and> val_starget_dirs a \<noteq> None \<and>
    val_usource_dirs a \<noteq> None \<and> val_utarget_dirs a \<noteq> None \<and>
    test_ssource_dirs a \<noteq> None \<and> test_starget_dirs a \<noteq> None \<and>
    test_usource_dirs a \<noteq> None \<and> test_utarget_dirs a \<noteq> None"
  shows "\<exists>dm evs'. datamodule_init fs a evs = (Inr dm, evs')"
  using assms unfolding datamodule_init_def
  apply (simp only: seq_result glob_files_result)
  apply (auto simp add: ret_def)
  done

text \<open>
  C5. For a list of directories that is not \<^verbatim>\<open>None\<close>, \<^verbatim>\<open>glob_files\<close> returns a list: the
  matches of the pattern in each directory, concatenated and sorted; that list is in
  ascending order and has exactly the concatenation's elements, each as often. Each of the
  twelve file lists of a constructed data module is that list for its directory argument
  and the pattern \<^verbatim>\<open>**/*.png\<close>.
\<close>

theorem glob_files_sorted_matches:
  "(\<exists>files out. glob_files fs (Some dirs) ext evs = (Inr files, out) \<and>
      files = sort (per_directory_matches fs dirs ext) \<and>
      sorted files \<and> mset files = mset (per_directory_matches fs dirs ext)) \<and>
   (datamodule_init fs a evs = (Inr dm, evs') \<longrightarrow>
      Some (train_ssource_files dm) = map_option (\<lambda>dirs. sorted_matches fs dirs png) (train_ssource_dirs a) \<and>
      Some (train_starget_files dm) = map_option (\<lambda>dirs. sorted_matches fs dirs png) (train_starget_dirs a) \<and>
      Some (train_usource_files dm) = map_option (\<lambda>dirs. sorted_matches fs dirs png) (train_usource_dirs a) \<and>
      Some (train_utarget_files dm) = map_option (\<lambda>dirs. sorted_matches fs dirs png) (train_utarget_dirs a) \<and>
      Some (val_ssource_files dm) = map_option (\<lambda>dirs. sorted_matches fs dirs png) (val_ssource_dirs a) \<and>
      Some (val_starget_files dm) = map_option (\<lambda>dirs. sorted_matches fs dirs png) (val_starget_dirs a) \<and>
      Some (val_usource_files dm) = map_option (\<lambda>dirs. sorted_matches fs dirs png) (val_usource_dirs a) \<and>
      Some (val_utarget_files dm) = map_option (\<lambda>dirs. sorted_matches fs dirs png) (val_utarget_dirs a) \<and>
      Some (test_ssource_files dm) = map_option (\<lambda>dirs. sorted_matches fs dirs png) (test_ssource_dirs a) \<and>
      Some (test_starget_files dm) = map_option (\<lambda>dirs. sorted_matches fs dirs png) (test_starget_dirs a) \<and>
      Some (test_usource_files dm) = map_option (\<lambda>dirs. sorted_matches fs dirs png) (test_usource_dirs a) \<and>
      Some (test_utarget_files dm) = map_option (\<lambda>dirs. sorted_matches fs dirs png) (test_utarget_dirs a))"
  using datamodule_init_result [of fs a evs dm evs']
  by (simp add: glob_files_result)

theorem glob_files_sorted_matches_witness:
  "\<exists>dm evs'. datamodule_init example_fs example_args [] = (Inr dm, evs') \<and>
     train_ssource_files dm = [''imgs/a/c.png'', ''imgs/b.png'', ''more/x.png''] \<and>
     train_starget_files dm = [''lbls/a/c.png'', ''lbls/b.png''] \<and>
     test_usource_files dm = [''imgs/a/c.png'', ''imgs/b.png'', ''more/x.png''] \<and>
     test_utarget_files dm = [''lbls/a/c.png'', ''lbls/b.png'']"
proof -
  obtain dm evs' where run: "datamodule_init example_fs example_args [] = (Inr dm, evs')"
    using datamodule_init_total [of example_args example_fs "[]"]
    by (auto simp: example_args_def)
  have imgs: "sorted_matches example_fs [''imgs'', ''more''] png
      = [''imgs/a/c.png'', ''imgs/b.png'', ''more/x.png'']"
    by (simp add: sorted_matches_def per_directory_matches_def example_fs_def png_def
        less_eq_char_def less_char_def)
  have lbls: "sorted_matches example_fs [''lbls''] png = [''lbls/a/c.png'', ''lbls/b.png'']"
    by (simp add: sorted_matches_def per_directory_matches_def example_fs_def png_def
        less_eq_char_def less_char_def)
  from glob_files_sorted_matches [of example_fs "[]" png "[]" example_args dm evs'] run
  have "train_ssource_files dm = [''imgs/a/c.png'', ''imgs/b.png'', ''more/x.png''] \<and>
     train_starget_files dm = [''lbls/a/c.png'', ''lbls/b.png''] \<and>
     test_usource_files dm = [''imgs/a/c.png'', ''imgs/b.png'', ''more/x.png''] \<and>
     test_utarget_files dm = [''lbls/a/c.png'', ''lbls/b.png'']"
    by (simp add: example_args_def imgs lbls)
  with run show ?thesis by blast
qed

section \<open>What the script passes on\<close>

lemma emit_result: "emit e evs = (Inr u, evs') \<longleftrightarrow> evs' = evs @ [e]"
  by (auto simp: emit_def)

lemma datamodule_init_events:
  assumes "datamodule_init fs a evs = (Inr dm, evs')"
  shows "\<exists>out. evs' = evs @ out \<and> filter is_seeding out = []"
  using assms unfolding datamodule_init_def
  apply (simp only: seq_result glob_files_result)
  apply (elim exE conjE)
  apply (auto simp add: ret_def)
  done

text \<open>The data module of the script is always constructed: its lists are never \<^verbatim>\<open>None\<close>.\<close>

lemma script_datamodule:
  "\<exists>dm out. datamodule_init fs (script_args fs hp) evs = (Inr dm, evs @ out) \<and>
     dm_args dm = script_args fs hp \<and> filter is_seeding out = []"
proof -
  obtain dm evs' where run: "datamodule_init fs (script_args fs hp) evs = (Inr dm, evs')"
    using datamodule_init_total [of "script_args fs hp" fs evs]
    by (auto simp: script_args_def Let_def)
  from datamodule_init_events [OF run] obtain out where
    "evs' = evs @ out" "filter is_seeding out = []" by blast
  moreover have "dm_args dm = script_args fs hp"
    using datamodule_init_result [OF run] by simp
  ultimately show ?thesis using run by blast
qed

lemma parse_args_snoc: "parse_args (argv @ [a]) = set_arg a (parse_args argv)"
  by (simp add: parse_args_def)

lemma parse_args_Nil: "parse_args [] = defaults"
  by (simp add: parse_args_def)

lemma parse_seed: "hp_seed (parse_args argv) = last (42 # [n. ArgSeed n \<leftarrow> argv])"
proof (induction argv rule: rev_induct)
  case Nil
  show ?case by (simp add: parse_args_Nil defaults_def)
next
  case (snoc a argv)
  then show ?case by (cases a) (simp_all add: parse_args_snoc)
qed

lemma parse_timesteps: "hp_timesteps (parse_args argv) = last (100 # [n. ArgTimesteps n \<leftarrow> argv])"
proof (induction argv rule: rev_induct)
  case Nil
  show ?case by (simp add: parse_args_Nil defaults_def)
next
  case (snoc a argv)
  then show ?case by (cases a) (simp_all add: parse_args_snoc)
qed

lemma parse_batch_size: "hp_batch_size (parse_args argv) = last (8 # [n. ArgBatchSize n \<leftarrow> argv])"
proof (induction argv rule: rev_induct)
  case Nil
  show ?case by (simp add: parse_args_Nil defaults_def)
next
  case (snoc a argv)
  then show ?case by (cases a) (simp_all add: parse_args_snoc)
qed

lemma parse_lr: "hp_lr (parse_args argv) = last (1 / 10 ^ 4 # [x. ArgLr x \<leftarrow> argv])"
proof (induction argv rule: rev_induct)
  case Nil
  show ?case by (simp add: parse_args_Nil defaults_def)
next
  case (snoc a argv)
  then show ?case by (cases a) (simp_all add: parse_args_snoc)
qed

lemma parse_epochs: "hp_epochs (parse_args argv) = last (31 # [n. ArgEpochs n \<leftarrow> argv])"
proof (induction argv rule: rev_induct)
  case Nil
  show ?case by (simp add: parse_args_Nil defaults_def)
next
  case (snoc a argv)
  then show ?case by (cases a) (simp_all add: parse_args_snoc)
qed

lemma parse_ckpt: "hp_ckpt (parse_args argv) = last (None # [Some p. ArgCkpt p \<leftarrow> argv])"
proof (induction argv rule: rev_induct)
  case Nil
  show ?case by (simp add: parse_args_Nil defaults_def)
next
  case (snoc a argv)
  then show ?case by (cases a) (simp_all add: parse_args_snoc)
qed

lemma parse_datadir: "hp_datadir (parse_args argv) = last (''data'' # [p. ArgDatadir p \<leftarrow> argv])"
proof (induction argv rule: rev_induct)
  case Nil
  show ?case by (simp add: parse_args_Nil defaults_def)
next
  case (snoc a argv)
  then show ?case by (cases a) (simp_all add: parse_args_snoc)
qed

lemma parse_logsdir: "hp_logsdir (parse_args argv) = last (''logs'' # [p. ArgLogsdir p \<leftarrow> argv])"
proof (induction argv rule: rev_induct)
  case Nil
  show ?case by (simp add: parse_args_Nil defaults_def)
next
  case (snoc a argv)
  then show ?case by (cases a) (simp_all add: parse_args_snoc)
qed


lemma script_args_explicit:
  "script_args fs hp =
       \<lparr>train_ssource_dirs = Some
          [path_join fs (hp_datadir hp) ''SpineXRVertSegmentation/T62020/20200501/raw/images'',
           path_join fs (hp_datadir hp) ''SpineXRVertSegmentation/T62022/20220501/raw/images'',
           path_join fs (hp_datadir hp) ''SpineXRVertSegmentation/T62021/20211101/raw/images''],
        train_starget_dirs = Some
          [path_join fs (hp_datadir hp) ''SpineXRVertSegmentation/T62020/20200501/raw/labels'',
           path_join fs (hp_datadir hp) ''SpineXRVertSegmentation/T62022/20220501/raw/labels'',
           path_join fs (hp_datadir hp) ''SpineXRVertSegmentation/T62021/20211101/raw/labels''],
        train_usource_dirs = Some
          [path_join fs (hp_datadir hp) ''SpineXRVertSegmentation/T62020/20200501/raw/images'',
           path_join fs (hp_datadir hp) ''SpineXRVertSegmentation/T62022/20220501/raw/images'',
           path_join fs (hp_datadir hp) ''SpineXRVertSegmentation/T62021/20211101/raw/images'',
           path_join fs (hp_datadir hp) ''SpineXRVertSegmentation/VinDr/v1/processed/train/images/'',
           path_join fs (hp_datadir hp) ''SpineXRVertSegmentation/VinDr/v1/processed/test/images/''],
        train_utarget_dirs = Some
          [path_join fs (hp_datadir hp) ''SpineXRVertSegmentation/T62020/20200501/raw/labels'',
           path_join fs (hp_datadir hp) ''SpineXRVertSegmentation/T62022/20220501/raw/labels'',
           path_join fs (hp_datadir hp) ''SpineXRVertSegmentation/T62021/20211101/raw/labels''],
        val_ssource_dirs = Some
          [path_join fs (hp_datadir hp) ''SpineXRVertSegmentation/T62020/20200501/raw/images'',
           path_join fs (hp_datadir hp) ''SpineXRVertSegmentation/T62022/20220501/raw/images'',
           path_join fs (hp_datadir hp) ''SpineXRVertSegmentation/T62021/20211101/raw/images''],
        val_starget_dirs = Some
          [path_join fs (hp_datadir hp) ''SpineXRVertSegmentation/T62020/20200501/raw/labels'',
           path_join fs (hp_datadir hp) ''SpineXRVertSegmentation/T62022/20220501/raw/labels'',
           path_join fs (hp_datadir hp) ''SpineXRVertSegmentation/T62021/20211101/raw/labels''],
        val_usource_dirs = Some
          [path_join fs (hp_datadir hp) ''SpineXRVertSegmentation/T62020/20200501/raw/images'',
           path_join fs (hp_datadir hp) ''SpineXRVertSegmentation/T62022/20220501/raw/images'',
           path_join fs (hp_datadir hp) ''SpineXRVertSegmentation/T62021/20211101/raw/images'',
           path_join fs (hp_datadir hp) ''SpineXRVertSegmentation/VinDr/v1/processed/test/images/''],
        val_utarget_dirs = Some
          [path_join fs (hp_datadir hp) ''SpineXRVertSegmentation/T62020/20200501/raw/labels'',
           path_join fs (hp_datadir hp) ''SpineXRVertSegmentation/T62022/20220501/raw/labels'',
           path_join fs (hp_datadir hp) ''SpineXRVertSegmentation/T62021/20211101/raw/labels''],
        test_ssource_dirs = Some
          [path_join fs (hp_datadir hp) ''SpineXRVertSegmentation/T62020/20200501/raw/images'',
           path_join fs (hp_datadir hp) ''SpineXRVertSegmentation/T62022/20220501/raw/images'',
           path_join fs (hp_datadir hp) ''SpineXRVertSegmentation/T62021/20211101/raw/images''],
        test_starget_dirs = Some
          [path_join fs (hp_datadir hp) ''SpineXRVertSegmentation/T62020/20200501/raw/labels'',
           path_join fs (hp_datadir hp) ''SpineXRVertSegmentation/T62022/20220501/raw/labels'',
           path_join fs (hp_datadir hp) ''SpineXRVertSegmentation/T62021/20211101/raw/labels''],
        test_usource_dirs = Some
          [path_join fs (hp_datadir hp) ''SpineXRVertSegmentation/T62020/20200501/raw/images'',
           path_join fs (hp_datadir hp) ''SpineXRVertSegmentation/T62022/20220501/raw/images'',
           path_join fs (hp_datadir hp) ''SpineXRVertSegmentation/T62021/20211101/raw/images'',
           path_join fs (hp_datadir hp) ''SpineXRVertSegmentation/VinDr/v1/processed/test/images/''],
        test_utarget_dirs = Some
          [path_join fs (hp_datadir hp) ''SpineXRVertSegmentation/T62020/20200501/raw/labels'',
           path_join fs (hp_datadir hp) ''SpineXRVertSegmentation/T62022/20220501/raw/labels'',
           path_join fs (hp_datadir hp) ''SpineXRVertSegmentation/T62021/20211101/raw/labels''],
        dm_shape = hp_shape hp, dm_batch_size = hp_batch_size hp,
        dm_train_samples = hp_train_samples hp, dm_val_samples = hp_val_samples hp,
        dm_test_samples = hp_test_samples hp\<rparr>"
  by (simp add: script_args_def raw_images_def raw_labels_def Let_def)

lemma module_init_iff:
  "module_init lib hp = Inr m \<longleftrightarrow>
     new_DiffusionModelUNet lib unet_2d = Inr () \<and>
     new_DDPMScheduler lib (hp_timesteps hp) = Inr () \<and>
     new_DiffusionInferer lib (hp_timesteps hp) = Inr () \<and>
     new_L1Loss lib = Inr () \<and>
     m = \<lparr>lm_lr = hp_lr hp, lm_epochs = hp_epochs hp, lm_weight_decay = hp_weight_decay hp,
          lm_num_timesteps = hp_timesteps hp, lm_batch_size = hp_batch_size hp,
          lm_shape = hp_shape hp, lm_num_classes = 2, lm_timesteps = hp_timesteps hp,
          lm_scheduler_num_train_timesteps = hp_timesteps hp\<rparr>"
  by (auto simp: module_init_def and_then_result)

lemma script_iff:
  "script lib fs hp evs = (Inr fc, evs') \<longleftrightarrow>
     (\<exists>dm out m.
        datamodule_init fs (script_args fs hp) evs = (Inr dm, evs @ out) \<and>
        module_init lib hp = Inr m \<and>
        new_ModelCheckpoint lib
          \<lparr>mc_dirpath = hp_logsdir hp,
           mc_filename = ''{epoch:02d}-{validation_loss_epoch:.2f}'',
           mc_save_top_k = - 1, mc_save_last = True, mc_every_n_epochs = 1\<rparr> = Inr () \<and>
        new_LearningRateMonitor lib ''step'' = Inr () \<and>
        new_TensorBoardLogger lib \<lparr>tb_save_dir = hp_logsdir hp, tb_log_graph = True\<rparr> = Inr () \<and>
        new_Trainer lib
          \<lparr>tr_args = hp, tr_max_epochs = hp_epochs hp,
           tr_logger = [\<lparr>tb_save_dir = hp_logsdir hp, tb_log_graph = True\<rparr>],
           tr_callbacks = [LearningRateMonitor ''step'', ModelCheckpoint \<lparr>mc_dirpath = hp_logsdir hp,
           mc_filename = ''{epoch:02d}-{validation_loss_epoch:.2f}'',
           mc_save_top_k = - 1, mc_save_last = True, mc_every_n_epochs = 1\<rparr>],
           tr_strategy = ''ddp_sharded''\<rparr> = Inr () \<and>
        fc = \<lparr>fit_trainer =
               \<lparr>tr_args = hp, tr_max_epochs = hp_epochs hp,
           tr_logger = [\<lparr>tb_save_dir = hp_logsdir hp, tb_log_graph = True\<rparr>],
           tr_callbacks = [LearningRateMonitor ''step'', ModelCheckpoint \<lparr>mc_dirpath = hp_logsdir hp,
           mc_filename = ''{epoch:02d}-{validation_loss_epoch:.2f}'',
           mc_save_top_k = - 1, mc_save_last = True, mc_every_n_epochs = 1\<rparr>],
           tr_strategy = ''ddp_sharded''\<rparr>,
              fit_model = m, fit_datamodule = dm, fit_ckpt_path = hp_ckpt hp\<rparr> \<and>
        evs' = evs @ out @ [SetDeterminism (hp_seed hp), SeedEverything 42])"
  unfolding script_def Let_def datamodule_setup_def
  apply (simp only: seq_result pure_stmt_result emit_result ret_result)
  apply (rule iffI)
   apply (elim exE conjE)
   apply (frule datamodule_init_events)
   apply (elim exE conjE)
   apply simp
  apply (elim exE conjE)
  apply simp
  done

text \<open>
  Once the model is constructed, the seeding calls of the run are the two below, whether
  or not a later constructor raises.
\<close>

lemma script_seeding:
  assumes "module_init lib hp = Inr m"
  shows "filter is_seeding (snd (script lib fs hp [])) =
    [SetDeterminism (hp_seed hp), SeedEverything 42]"
proof -
  from script_datamodule [of fs hp "[]"] obtain dm out where
    run: "datamodule_init fs (script_args fs hp) [] = (Inr dm, out)" and
    quiet: "filter is_seeding out = []"
    by auto
  show ?thesis
    using run quiet assms
    by (auto simp: script_def seq_def datamodule_setup_def emit_def ret_def pure_stmt_def Let_def
        split: sum.splits)
qed

text \<open>An exception of the model's constructor is the outcome of the script.\<close>

lemma script_module_fails:
  assumes "module_init lib hp = Inl e"
  shows "fst (script lib fs hp evs) = Inl e"
proof -
  from script_datamodule [of fs hp evs] obtain dm out where
    run: "datamodule_init fs (script_args fs hp) evs = (Inr dm, evs @ out)"
    by auto
  show ?thesis
    using run assms
    by (simp add: script_def seq_def datamodule_setup_def emit_def pure_stmt_def)
qed

lemma example_lib_module:
  "0 < hp_timesteps hp \<Longrightarrow> module_init example_lib hp =
     Inr \<lparr>lm_lr = hp_lr hp, lm_epochs = hp_epochs hp, lm_weight_decay = hp_weight_decay hp,
          lm_num_timesteps = hp_timesteps hp, lm_batch_size = hp_batch_size hp,
          lm_shape = hp_shape hp, lm_num_classes = 2, lm_timesteps = hp_timesteps hp,
          lm_scheduler_num_train_timesteps = hp_timesteps hp\<rparr>"
  by (simp add: module_init_def and_then_def example_lib_def)

lemma example_lib_module_fails:
  "hp_timesteps hp \<le> 0 \<Longrightarrow> module_init example_lib hp = Inl (LibraryError ''num_train_timesteps'')"
  by (simp add: module_init_def and_then_def example_lib_def)

text \<open>
  C6, at the command line \<^verbatim>\<open>--seed 7\<close>, for libraries that construct the model: the
  seeding calls of the run are \<^verbatim>\<open>set_determinism(seed=7)\<close> from the data module's
  \<^verbatim>\<open>setup\<close> and then \<^verbatim>\<open>seed_everything(42)\<close>. The application is seeded with the literal
  42, not with the seed of the command line.
\<close>

theorem seed_everything_not_from_cli:
  assumes "module_init lib (parse_args [ArgSeed 7]) = Inr m"
  shows "filter is_seeding (snd (main lib fs [ArgSeed 7] [])) =
    [SetDeterminism 7, SeedEverything 42]"
  using script_seeding [OF assms, of fs] parse_seed [of "[ArgSeed 7]"]
  by (simp add: main_def)

theorem seed_everything_not_from_cli_witness:
  "module_init example_lib (parse_args [ArgSeed 7]) =
     Inr \<lparr>lm_lr = 1 / 10 ^ 4, lm_epochs = 31, lm_weight_decay = 1 / 10 ^ 4,
          lm_num_timesteps = 100, lm_batch_size = 8, lm_shape = 256, lm_num_classes = 2,
          lm_timesteps = 100, lm_scheduler_num_train_timesteps = 100\<rparr> \<and>
   filter is_seeding (snd (main example_lib example_fs [ArgSeed 7] [])) =
     [SetDeterminism 7, SeedEverything 42]"
proof -
  have made: "module_init example_lib (parse_args [ArgSeed 7]) =
     Inr \<lparr>lm_lr = 1 / 10 ^ 4, lm_epochs = 31, lm_weight_decay = 1 / 10 ^ 4,
          lm_num_timesteps = 100, lm_batch_size = 8, lm_shape = 256, lm_num_classes = 2,
          lm_timesteps = 100, lm_scheduler_num_train_timesteps = 100\<rparr>"
    by (simp add: module_init_def and_then_def example_lib_def parse_args_def defaults_def)
  show ?thesis
    by (rule conjI [OF made seed_everything_not_from_cli [OF made]])
qed

text \<open>
  C7. Each of seed, timesteps, batch size, learning rate, epochs, checkpoint path, data
  directory and log directory has a default, and the namespace holds the value of the
  last argument that gives it, the default when none does. The data module's
  directories are paths under the data directory. The model is constructed exactly when
  its library constructors accept, the scheduler the timesteps among them, and then
  holds the namespace's learning rate, epochs, timesteps and batch size. The script
  reaches \<^verbatim>\<open>trainer.fit\<close> exactly when the model and the four Lightning objects are
  constructed, and then it has passed the namespace on: the seed to the data module's
  \<^verbatim>\<open>setup\<close>, the batch size and directories to the data module, the namespace, the
  epochs and the log directory to the trainer, logger and checkpoint callback, and the
  checkpoint path to \<^verbatim>\<open>fit\<close>.
\<close>

theorem cli_values_passed_on:
  "hp_seed (parse_args argv) = last (42 # [n. ArgSeed n \<leftarrow> argv]) \<and>
   hp_timesteps (parse_args argv) = last (100 # [n. ArgTimesteps n \<leftarrow> argv]) \<and>
   hp_batch_size (parse_args argv) = last (8 # [n. ArgBatchSize n \<leftarrow> argv]) \<and>
   hp_lr (parse_args argv) = last (1 / 10 ^ 4 # [x. ArgLr x \<leftarrow> argv]) \<and>
   hp_epochs (parse_args argv) = last (31 # [n. ArgEpochs n \<leftarrow> argv]) \<and>
   hp_ckpt (parse_args argv) = last (None # [Some p. ArgCkpt p \<leftarrow> argv]) \<and>
   hp_datadir (parse_args argv) = last (''data'' # [p. ArgDatadir p \<leftarrow> argv]) \<and>
   hp_logsdir (parse_args argv) = last (''logs'' # [p. ArgLogsdir p \<leftarrow> argv]) \<and>
   script_args fs hp =
       \<lparr>train_ssource_dirs = Some
          [path_join fs (hp_datadir hp) ''SpineXRVertSegmentation/T62020/20200501/raw/images'',
           path_join fs (hp_datadir hp) ''SpineXRVertSegmentation/T62022/20220501/raw/images'',
           path_join fs (hp_datadir hp) ''SpineXRVertSegmentation/T62021/20211101/raw/images''],
        train_starget_dirs = Some
          [path_join fs (hp_datadir hp) ''SpineXRVertSegmentation/T62020/20200501/raw/labels'',
           path_join fs (hp_datadir hp) ''SpineXRVertSegmentation/T62022/20220501/raw/labels'',
           path_join fs (hp_datadir hp) ''SpineXRVertSegmentation/T62021/20211101/raw/labels''],
        train_usource_dirs = Some
          [path_join fs (hp_datadir hp) ''SpineXRVertSegmentation/T62020/20200501/raw/images'',
           path_join fs (hp_datadir hp) ''SpineXRVertSegmentation/T62022/20220501/raw/images'',
           path_join fs (hp_datadir hp) ''SpineXRVertSegmentation/T62021/20211101/raw/images'',
           path_join fs (hp_datadir hp) ''SpineXRVertSegmentation/VinDr/v1/processed/train/images/'',
           path_join fs (hp_datadir hp) ''SpineXRVertSegmentation/VinDr/v1/processed/test/images/''],
        train_utarget_dirs = Some
          [path_join fs (hp_datadir hp) ''SpineXRVertSegmentation/T62020/20200501/raw/labels'',
           path_join fs (hp_datadir hp) ''SpineXRVertSegmentation/T62022/20220501/raw/labels'',
           path_join fs (hp_datadir hp) ''SpineXRVertSegmentation/T62021/20211101/raw/labels''],
        val_ssource_dirs = Some
          [path_join fs (hp_datadir hp) ''SpineXRVertSegmentation/T62020/20200501/raw/images'',
           path_join fs (hp_datadir hp) ''SpineXRVertSegmentation/T62022/20220501/raw/images'',
           path_join fs (hp_datadir hp) ''SpineXRVertSegmentation/T62021/20211101/raw/images''],
        val_starget_dirs = Some
          [path_join fs (hp_datadir hp) ''SpineXRVertSegmentation/T62020/20200501/raw/labels'',
           path_join fs (hp_datadir hp) ''SpineXRVertSegmentation/T62022/20220501/raw/labels'',
           path_join fs (hp_datadir hp) ''SpineXRVertSegmentation/T62021/20211101/raw/labels''],
        val_usource_dirs = Some
          [path_join fs (hp_datadir hp) ''SpineXRVertSegmentation/T62020/20200501/raw/images'',
           path_join fs (hp_datadir hp) ''SpineXRVertSegmentation/T62022/20220501/raw/images'',
           path_join fs (hp_datadir hp) ''SpineXRVertSegmentation/T62021/20211101/raw/images'',
           path_join fs (hp_datadir hp) ''SpineXRVertSegmentation/VinDr/v1/processed/test/images/''],
        val_utarget_dirs = Some
          [path_join fs (hp_datadir hp) ''SpineXRVertSegmentation/T62020/20200501/raw/labels'',
           path_join fs (hp_datadir hp) ''SpineXRVertSegmentation/T62022/20220501/raw/labels'',
           path_join fs (hp_datadir hp) ''SpineXRVertSegmentation/T62021/20211101/raw/labels''],
        test_ssource_dirs = Some
          [path_join fs (hp_datadir hp) ''SpineXRVertSegmentation/T62020/20200501/raw/images'',
           path_join fs (hp_datadir hp) ''SpineXRVertSegmentation/T62022/20220501/raw/images'',
           path_join fs (hp_datadir hp) ''SpineXRVertSegmentation/T62021/20211101/raw/images''],
        test_starget_dirs = Some
          [path_join fs (hp_datadir hp) ''SpineXRVertSegmentation/T62020/20200501/raw/labels'',
           path_join fs (hp_datadir hp) ''SpineXRVertSegmentation/T62022/20220501/raw/labels'',
           path_join fs (hp_datadir hp) ''SpineXRVertSegmentation/T62021/20211101/raw/labels''],
        test_usource_dirs = Some
          [path_join fs (hp_datadir hp) ''SpineXRVertSegmentation/T62020/20200501/raw/images'',
           path_join fs (hp_datadir hp) ''SpineXRVertSegmentation/T62022/20220501/raw/images'',
           path_join fs (hp_datadir hp) ''SpineXRVertSegmentation/T62021/20211101/raw/images'',
           path_join fs (hp_datadir hp) ''SpineXRVertSegmentation/VinDr/v1/processed/test/images/''],
        test_utarget_dirs = Some
          [path_join fs (hp_datadir hp) ''SpineXRVertSegmentation/T62020/20200501/raw/labels'',
           path_join fs (hp_datadir hp) ''SpineXRVertSegmentation/T62022/20220501/raw/labels'',
           path_join fs (hp_datadir hp) ''SpineXRVertSegmentation/T62021/20211101/raw/labels''],
        dm_shape = hp_shape hp, dm_batch_size = hp_batch_size hp,
        dm_train_samples = hp_train_samples hp, dm_val_samples = hp_val_samples hp,
        dm_test_samples = hp_test_samples hp\<rparr> \<and>
   (module_init lib hp = Inr m \<longleftrightarrow>
     new_DiffusionModelUNet lib unet_2d = Inr () \<and>
     new_DDPMScheduler lib (hp_timesteps hp) = Inr () \<and>
     new_DiffusionInferer lib (hp_timesteps hp) = Inr () \<and>
     new_L1Loss lib = Inr () \<and>
     m = \<lparr>lm_lr = hp_lr hp, lm_epochs = hp_epochs hp, lm_weight_decay = hp_weight_decay hp,
          lm_num_timesteps = hp_timesteps hp, lm_batch_size = hp_batch_size hp,
          lm_shape = hp_shape hp, lm_num_classes = 2, lm_timesteps = hp_timesteps hp,
          lm_scheduler_num_train_timesteps = hp_timesteps hp\<rparr>) \<and>
   (hp = parse_args argv \<longrightarrow>
    (main lib fs argv evs = (Inr fc, evs') \<longleftrightarrow>
     (\<exists>dm out m.
        datamodule_init fs (script_args fs hp) evs = (Inr dm, evs @ out) \<and>
        module_init lib hp = Inr m \<and>
        new_ModelCheckpoint lib
          \<lparr>mc_dirpath = hp_logsdir hp,
           mc_filename = ''{epoch:02d}-{validation_loss_epoch:.2f}'',
           mc_save_top_k = - 1, mc_save_last = True, mc_every_n_epochs = 1\<rparr> = Inr () \<and>
        new_LearningRateMonitor lib ''step'' = Inr () \<and>
        new_TensorBoardLogger lib \<lparr>tb_save_dir = hp_logsdir hp, tb_log_graph = True\<rparr> = Inr () \<and>
        new_Trainer lib
          \<lparr>tr_args = hp, tr_max_epochs = hp_epochs hp,
           tr_logger = [\<lparr>tb_save_dir = hp_logsdir hp, tb_log_graph = True\<rparr>],
           tr_callbacks = [LearningRateMonitor ''step'', ModelCheckpoint \<lparr>mc_dirpath = hp_logsdir hp,
           mc_filename = ''{epoch:02d}-{validation_loss_epoch:.2f}'',
           mc_save_top_k = - 1, mc_save_last = True, mc_every_n_epochs = 1\<rparr>],
           tr_strategy = ''ddp_sharded''\<rparr> = Inr () \<and>
        fc = \<lparr>fit_trainer =
               \<lparr>tr_args = hp, tr_max_epochs = hp_epochs hp,
           tr_logger = [\<lparr>tb_save_dir = hp_logsdir hp, tb_log_graph = True\<rparr>],
           tr_callbacks = [LearningRateMonitor ''step'', ModelCheckpoint \<lparr>mc_dirpath = hp_logsdir hp,
           mc_filename = ''{epoch:02d}-{validation_loss_epoch:.2f}'',
           mc_save_top_k = - 1, mc_save_last = True, mc_every_n_epochs = 1\<rparr>],
           tr_strategy = ''ddp_sharded''\<rparr>,
              fit_model = m, fit_datamodule = dm, fit_ckpt_path = hp_ckpt hp\<rparr> \<and>
        evs' = evs @ out @ [SetDeterminism (hp_seed hp), SeedEverything 42])))"
proof -
  note parse = parse_seed parse_timesteps parse_batch_size parse_lr parse_epochs parse_ckpt parse_datadir parse_logsdir
  have run: "hp = parse_args argv \<longrightarrow>
    (main lib fs argv evs = (Inr fc, evs') \<longleftrightarrow>
     (\<exists>dm out m.
        datamodule_init fs (script_args fs hp) evs = (Inr dm, evs @ out) \<and>
        module_init lib hp = Inr m \<and>
        new_ModelCheckpoint lib
          \<lparr>mc_dirpath = hp_logsdir hp,
           mc_filename = ''{epoch:02d}-{validation_loss_epoch:.2f}'',
           mc_save_top_k = - 1, mc_save_last = True, mc_every_n_epochs = 1\<rparr> = Inr () \<and>
        new_LearningRateMonitor lib ''step'' = Inr () \<and>
        new_TensorBoardLogger lib \<lparr>tb_save_dir = hp_logsdir hp, tb_log_graph = True\<rparr> = Inr () \<and>
        new_Trainer lib
          \<lparr>tr_args = hp, tr_max_epochs = hp_epochs hp,
           tr_logger = [\<lparr>tb_save_dir = hp_logsdir hp, tb_log_graph = True\<rparr>],
           tr_callbacks = [LearningRateMonitor ''step'', ModelCheckpoint \<lparr>mc_dirpath = hp_logsdir hp,
           mc_filename = ''{epoch:02d}-{validation_loss_epoch:.2f}'',
           mc_save_top_k = - 1, mc_save_last = True, mc_every_n_epochs = 1\<rparr>],
           tr_strategy = ''ddp_sharded''\<rparr> = Inr () \<and>
        fc = \<lparr>fit_trainer =
               \<lparr>tr_args = hp, tr_max_epochs = hp_epochs hp,
           tr_logger = [\<lparr>tb_save_dir = hp_logsdir hp, tb_log_graph = True\<rparr>],
           tr_callbacks = [LearningRateMonitor ''step'', ModelCheckpoint \<lparr>mc_dirpath = hp_logsdir hp,
           mc_filename = ''{epoch:02d}-{validation_loss_epoch:.2f}'',
           mc_save_top_k = - 1, mc_save_last = True, mc_every_n_epochs = 1\<rparr>],
           tr_strategy = ''ddp_sharded''\<rparr>,
              fit_model = m, fit_datamodule = dm, fit_ckpt_path = hp_ckpt hp\<rparr> \<and>
        evs' = evs @ out @ [SetDeterminism (hp_seed hp), SeedEverything 42]))"
  proof (rule impI)
    assume h: "hp = parse_args argv"
    show "main lib fs argv evs = (Inr fc, evs') \<longleftrightarrow>
     (\<exists>dm out m.
        datamodule_init fs (script_args fs hp) evs = (Inr dm, evs @ out) \<and>
        module_init lib hp = Inr m \<and>
        new_ModelCheckpoint lib
          \<lparr>mc_dirpath = hp_logsdir hp,
           mc_filename = ''{epoch:02d}-{validation_loss_epoch:.2f}'',
           mc_save_top_k = - 1, mc_save_last = True, mc_every_n_epochs = 1\<rparr> = Inr () \<and>
        new_LearningRateMonitor lib ''step'' = Inr () \<and>
        new_TensorBoardLogger lib \<lparr>tb_save_dir = hp_logsdir hp, tb_log_graph = True\<rparr> = Inr () \<and>
        new_Trainer lib
          \<lparr>tr_args = hp, tr_max_epochs = hp_epochs hp,
           tr_logger = [\<lparr>tb_save_dir = hp_logsdir hp, tb_log_graph = True\<rparr>],
           tr_callbacks = [LearningRateMonitor ''step'', ModelCheckpoint \<lparr>mc_dirpath = hp_logsdir hp,
           mc_filename = ''{epoch:02d}-{validation_loss_epoch:.2f}'',
           mc_save_top_k = - 1, mc_save_last = True, mc_every_n_epochs = 1\<rparr>],
           tr_strategy = ''ddp_sharded''\<rparr> = Inr () \<and>
        fc = \<lparr>fit_trainer =
               \<lparr>tr_args = hp, tr_max_epochs = hp_epochs hp,
           tr_logger = [\<lparr>tb_save_dir = hp_logsdir hp, tb_log_graph = True\<rparr>],
           tr_callbacks = [LearningRateMonitor ''step'', ModelCheckpoint \<lparr>mc_dirpath = hp_logsdir hp,
           mc_filename = ''{epoch:02d}-{validation_loss_epoch:.2f}'',
           mc_save_top_k = - 1, mc_save_last = True, mc_every_n_epochs = 1\<rparr>],
           tr_strategy = ''ddp_sharded''\<rparr>,
              fit_model = m, fit_datamodule = dm, fit_ckpt_path = hp_ckpt hp\<rparr> \<and>
        evs' = evs @ out @ [SetDeterminism (hp_seed hp), SeedEverything 42])"
      unfolding main_def h [symmetric] by (rule script_iff)
  qed
  show ?thesis
    by (intro conjI parse script_args_explicit module_init_iff run)
qed

text \<open>
  On a command line that gives the seed twice, the second value is the namespace's; the
  run reaches \<^verbatim>\<open>trainer.fit\<close> with the values of the command line; and with
  \<^verbatim>\<open>--timesteps -1\<close> the scheduler's exception ends the script.
\<close>

theorem cli_values_passed_on_witness:
  "hp_seed (parse_args example_argv) = 9 \<and>
   hp_timesteps (parse_args example_argv) = 50 \<and>
   hp_timesteps (parse_args []) = 100 \<and>
   hp_datadir (parse_args example_argv) = ''d'' \<and>
   (\<exists>fc evs'. main example_lib example_fs example_argv [] = (Inr fc, evs') \<and>
      train_ssource_dirs (dm_args (fit_datamodule fc)) =
        Some [''d/SpineXRVertSegmentation/T62020/20200501/raw/images'',
              ''d/SpineXRVertSegmentation/T62022/20220501/raw/images'',
              ''d/SpineXRVertSegmentation/T62021/20211101/raw/images''] \<and>
      dm_batch_size (dm_args (fit_datamodule fc)) = 4 \<and>
      lm_timesteps (fit_model fc) = 50 \<and>
      lm_lr (fit_model fc) = 1 / 2 \<and>
      tr_max_epochs (fit_trainer fc) = 3 \<and>
      map tb_save_dir (tr_logger (fit_trainer fc)) = [''runs''] \<and>
      fit_ckpt_path fc = Some ''last.ckpt'' \<and>
      filter is_seeding evs' = [SetDeterminism 9, SeedEverything 42]) \<and>
   fst (main example_lib example_fs [ArgTimesteps (- 1)] []) =
     Inl (LibraryError ''num_train_timesteps'')"
proof -
  define hp where "hp = parse_args example_argv"
  note inst = cli_values_passed_on [where argv = example_argv and hp = hp and lib = example_lib
      and fs = example_fs and evs = "[]"]
  have seed: "hp_seed (parse_args example_argv) = 9"
    using cli_values_passed_on [where argv = example_argv, THEN conjunct1]
    by (simp add: example_argv_def)
  have steps: "hp_timesteps (parse_args example_argv) = 50"
    using cli_values_passed_on [where argv = example_argv, THEN conjunct2, THEN conjunct1]
    by (simp add: example_argv_def)
  have steps0: "hp_timesteps (parse_args []) = 100"
    using cli_values_passed_on [where argv = "[]", THEN conjunct2, THEN conjunct1]
    by simp
  have rest: "hp_batch_size hp = 4 \<and> hp_lr hp = 1 / 2 \<and> hp_epochs hp = 3 \<and>
      hp_ckpt hp = Some ''last.ckpt'' \<and> hp_datadir hp = ''d'' \<and> hp_logsdir hp = ''runs''"
    unfolding hp_def
    using cli_values_passed_on [where argv = example_argv, THEN conjunct2, THEN conjunct2]
    by (simp add: example_argv_def)
  have dirs: "train_ssource_dirs (script_args example_fs hp) =
        Some [''d/SpineXRVertSegmentation/T62020/20200501/raw/images'',
              ''d/SpineXRVertSegmentation/T62022/20220501/raw/images'',
              ''d/SpineXRVertSegmentation/T62021/20211101/raw/images''] \<and>
      dm_batch_size (script_args example_fs hp) = 4"
    using cli_values_passed_on [where fs = example_fs and hp = hp,
        THEN conjunct2, THEN conjunct2, THEN conjunct2, THEN conjunct2, THEN conjunct2,
        THEN conjunct2, THEN conjunct2, THEN conjunct2, THEN conjunct1] rest
    by (simp add: example_fs_def)
  from script_datamodule [of example_fs hp "[]"] obtain dm out where
    dm: "datamodule_init example_fs (script_args example_fs hp) [] = (Inr dm, [] @ out)" and
    args: "dm_args dm = script_args example_fs hp" and
    quiet: "filter is_seeding out = []"
    by auto
  have model: "module_init example_lib hp = Inr \<lparr>lm_lr = hp_lr hp, lm_epochs = hp_epochs hp, lm_weight_decay = hp_weight_decay hp,
          lm_num_timesteps = hp_timesteps hp, lm_batch_size = hp_batch_size hp,
          lm_shape = hp_shape hp, lm_num_classes = 2, lm_timesteps = hp_timesteps hp,
          lm_scheduler_num_train_timesteps = hp_timesteps hp\<rparr>"
    by (rule example_lib_module) (simp add: hp_def steps)
  have "main example_lib example_fs example_argv [] =
      (Inr \<lparr>fit_trainer =
               \<lparr>tr_args = hp, tr_max_epochs = hp_epochs hp,
           tr_logger = [\<lparr>tb_save_dir = hp_logsdir hp, tb_log_graph = True\<rparr>],
           tr_callbacks = [LearningRateMonitor ''step'', ModelCheckpoint \<lparr>mc_dirpath = hp_logsdir hp,
           mc_filename = ''{epoch:02d}-{validation_loss_epoch:.2f}'',
           mc_save_top_k = - 1, mc_save_last = True, mc_every_n_epochs = 1\<rparr>],
           tr_strategy = ''ddp_sharded''\<rparr>,
              fit_model = \<lparr>lm_lr = hp_lr hp, lm_epochs = hp_epochs hp, lm_weight_decay = hp_weight_decay hp,
          lm_num_timesteps = hp_timesteps hp, lm_batch_size = hp_batch_size hp,
          lm_shape = hp_shape hp, lm_num_classes = 2, lm_timesteps = hp_timesteps hp,
          lm_scheduler_num_train_timesteps = hp_timesteps hp\<rparr>,
              fit_datamodule = dm, fit_ckpt_path = hp_ckpt hp\<rparr>,
       [] @ out @ [SetDeterminism (hp_seed hp), SeedEverything 42])"
    apply (rule inst [THEN conjunct2, THEN conjunct2, THEN conjunct2, THEN conjunct2,
          THEN conjunct2, THEN conjunct2, THEN conjunct2, THEN conjunct2, THEN conjunct2,
          THEN conjunct2, THEN mp, OF hp_def, THEN iffD2])
    apply (intro exI conjI)
           apply (rule dm)
          apply (rule model)
         apply (simp_all add: example_lib_def)
    done
  then have reached: "\<exists>fc evs'. main example_lib example_fs example_argv [] = (Inr fc, evs') \<and>
      train_ssource_dirs (dm_args (fit_datamodule fc)) =
        Some [''d/SpineXRVertSegmentation/T62020/20200501/raw/images'',
              ''d/SpineXRVertSegmentation/T62022/20220501/raw/images'',
              ''d/SpineXRVertSegmentation/T62021/20211101/raw/images''] \<and>
      dm_batch_size (dm_args (fit_datamodule fc)) = 4 \<and>
      lm_timesteps (fit_model fc) = 50 \<and>
      lm_lr (fit_model fc) = 1 / 2 \<and>
      tr_max_epochs (fit_trainer fc) = 3 \<and>
      map tb_save_dir (tr_logger (fit_trainer fc)) = [''runs''] \<and>
      fit_ckpt_path fc = Some ''last.ckpt'' \<and>
      filter is_seeding evs' = [SetDeterminism 9, SeedEverything 42]"
    using args dirs rest quiet seed steps
    by (simp add: hp_def)
  have fails: "fst (main example_lib example_fs [ArgTimesteps (- 1)] []) =
     Inl (LibraryError ''num_train_timesteps'')"
    unfolding main_def
    by (rule script_module_fails, rule example_lib_module_fails)
      (simp add: parse_args_def)
  from seed steps steps0 rest reached fails show ?thesis
    by (simp add: hp_def)
qed

text \<open>
  C9. Whenever the script reaches \<^verbatim>\<open>trainer.fit\<close>, the checkpoint callback was constructed
  with \<^verbatim>\<open>every_n_epochs=1\<close>, \<^verbatim>\<open>save_top_k=-1\<close>, \<^verbatim>\<open>save_last=True\<close> and the namespace's log
  directory as \<^verbatim>\<open>dirpath\<close>, and the trainer carries it; the log directory is the last
  \<^verbatim>\<open>--logsdir\<close> of the command line, \<^verbatim>\<open>logs\<close> when there is none. The script does reach
  \<^verbatim>\<open>trainer.fit\<close> when the libraries construct the model and the four Lightning objects;
  when the model's constructor raises, the script ends there.
\<close>

theorem checkpoint_callback_configured:
  "hp_logsdir (parse_args argv) = last (''logs'' # [p. ArgLogsdir p \<leftarrow> argv]) \<and>
   (main lib fs argv evs = (Inr fc, evs') \<longrightarrow>
      new_ModelCheckpoint lib
        \<lparr>mc_dirpath = hp_logsdir (parse_args argv),
           mc_filename = ''{epoch:02d}-{validation_loss_epoch:.2f}'',
           mc_save_top_k = - 1, mc_save_last = True, mc_every_n_epochs = 1\<rparr> = Inr () \<and>
      tr_callbacks (fit_trainer fc) =
        [LearningRateMonitor ''step'',
         ModelCheckpoint
           \<lparr>mc_dirpath = hp_logsdir (parse_args argv),
           mc_filename = ''{epoch:02d}-{validation_loss_epoch:.2f}'',
           mc_save_top_k = - 1, mc_save_last = True, mc_every_n_epochs = 1\<rparr>]) \<and>
   (module_init lib (parse_args argv) = Inr m \<and>
    new_ModelCheckpoint lib
      \<lparr>mc_dirpath = hp_logsdir (parse_args argv),
           mc_filename = ''{epoch:02d}-{validation_loss_epoch:.2f}'',
           mc_save_top_k = - 1, mc_save_last = True, mc_every_n_epochs = 1\<rparr> = Inr () \<and>
    new_LearningRateMonitor lib ''step'' = Inr () \<and>
    new_TensorBoardLogger lib
      \<lparr>tb_save_dir = hp_logsdir (parse_args argv), tb_log_graph = True\<rparr> = Inr () \<and>
    (\<forall>t. new_Trainer lib t = Inr ())
      \<longrightarrow> (\<exists>fc evs'. main lib fs argv evs = (Inr fc, evs'))) \<and>
   (module_init lib (parse_args argv) = Inl e \<longrightarrow> fst (main lib fs argv evs) = Inl e)"
proof -
  have a: "hp_logsdir (parse_args argv) = last (''logs'' # [p. ArgLogsdir p \<leftarrow> argv])"
    by (rule parse_logsdir)
  have b: "main lib fs argv evs = (Inr fc, evs') \<longrightarrow>
      new_ModelCheckpoint lib
        \<lparr>mc_dirpath = hp_logsdir (parse_args argv),
           mc_filename = ''{epoch:02d}-{validation_loss_epoch:.2f}'',
           mc_save_top_k = - 1, mc_save_last = True, mc_every_n_epochs = 1\<rparr> = Inr () \<and>
      tr_callbacks (fit_trainer fc) =
        [LearningRateMonitor ''step'',
         ModelCheckpoint
           \<lparr>mc_dirpath = hp_logsdir (parse_args argv),
           mc_filename = ''{epoch:02d}-{validation_loss_epoch:.2f}'',
           mc_save_top_k = - 1, mc_save_last = True, mc_every_n_epochs = 1\<rparr>]"
    by (auto simp: main_def script_iff)
  have c: "module_init lib (parse_args argv) = Inr m \<and>
    new_ModelCheckpoint lib
      \<lparr>mc_dirpath = hp_logsdir (parse_args argv),
           mc_filename = ''{epoch:02d}-{validation_loss_epoch:.2f}'',
           mc_save_top_k = - 1, mc_save_last = True, mc_every_n_epochs = 1\<rparr> = Inr () \<and>
    new_LearningRateMonitor lib ''step'' = Inr () \<and>
    new_TensorBoardLogger lib
      \<lparr>tb_save_dir = hp_logsdir (parse_args argv), tb_log_graph = True\<rparr> = Inr () \<and>
    (\<forall>t. new_Trainer lib t = Inr ())
      \<longrightarrow> (\<exists>fc evs'. main lib fs argv evs = (Inr fc, evs'))"
    using script_datamodule [of fs "parse_args argv" evs]
    by (auto simp: main_def script_iff)
  have d: "module_init lib (parse_args argv) = Inl e \<longrightarrow> fst (main lib fs argv evs) = Inl e"
    by (simp add: main_def script_module_fails)
  from a b c d show ?thesis by blast
qed

theorem checkpoint_callback_configured_witness:
  "(\<exists>fc evs'. main example_lib example_fs [ArgLogsdir ''old'', ArgLogsdir ''runs''] [] = (Inr fc, evs') \<and>
      tr_callbacks (fit_trainer fc) =
        [LearningRateMonitor ''step'',
         ModelCheckpoint
           \<lparr>mc_dirpath = ''runs'',
            mc_filename = ''{epoch:02d}-{validation_loss_epoch:.2f}'',
            mc_save_top_k = - 1, mc_save_last = True, mc_every_n_epochs = 1\<rparr>]) \<and>
   fst (main example_lib example_fs [ArgTimesteps (- 1)] []) =
     Inl (LibraryError ''num_train_timesteps'')"
proof -
  define argv where "argv = [ArgLogsdir ''old'', ArgLogsdir ''runs'']"
  note inst = checkpoint_callback_configured [where argv = argv and lib = example_lib
      and fs = example_fs and evs = "[]"]
  have dir: "hp_logsdir (parse_args argv) = ''runs''"
    using inst [THEN conjunct1] by (simp add: argv_def)
  have steps: "0 < hp_timesteps (parse_args argv)"
    by (simp add: parse_timesteps argv_def)
  from inst [THEN conjunct2, THEN conjunct2, THEN conjunct1, THEN mp,
      OF conjI [OF example_lib_module [OF steps]]]
  obtain fc evs' where run: "main example_lib example_fs argv [] = (Inr fc, evs')"
    by (auto simp: example_lib_def)
  from checkpoint_callback_configured [where argv = argv and lib = example_lib
      and fs = example_fs and evs = "[]" and fc = fc and evs' = evs',
      THEN conjunct2, THEN conjunct1, THEN mp, OF run] dir
  have "tr_callbacks (fit_trainer fc) =
        [LearningRateMonitor ''step'',
         ModelCheckpoint
           \<lparr>mc_dirpath = ''runs'',
            mc_filename = ''{epoch:02d}-{validation_loss_epoch:.2f}'',
            mc_save_top_k = - 1, mc_save_last = True, mc_every_n_epochs = 1\<rparr>]"
    by simp
  with run have reached: "\<exists>fc evs'. main example_lib example_fs argv [] = (Inr fc, evs') \<and>
      tr_callbacks (fit_trainer fc) =
        [LearningRateMonitor ''step'',
         ModelCheckpoint
           \<lparr>mc_dirpath = ''runs'',
            mc_filename = ''{epoch:02d}-{validation_loss_epoch:.2f}'',
            mc_save_top_k = - 1, mc_save_last = True, mc_every_n_epochs = 1\<rparr>]"
    by blast
  have neg: "module_init example_lib (parse_args [ArgTimesteps (- 1)]) =
      Inl (LibraryError ''num_train_timesteps'')"
    by (rule example_lib_module_fails) (simp add: parse_args_def)
  have fails: "fst (main example_lib example_fs [ArgTimesteps (- 1)] []) =
     Inl (LibraryError ''num_train_timesteps'')"
    by (rule checkpoint_callback_configured [where argv = "[ArgTimesteps (- 1)]"
          and lib = example_lib, THEN conjunct2, THEN conjunct2, THEN conjunct2, THEN mp, OF neg])
  from reached fails show ?thesis by (simp add: argv_def)
qed

section \<open>The loss of a step\<close>

lemma on_rng_result:
  "on_rng m s = (Inr x, s') \<longleftrightarrow> (\<exists>w. m (rng s) = (Inr x, w) \<and> s' = s\<lparr>rng := w\<rparr>)"
  by (auto simp: on_rng_def split: prod.splits)

lemma log_call_result: "log_call e s = (Inr u, s') \<longleftrightarrow> s' = s\<lparr>logs := logs s @ [e]\<rparr>"
  by (auto simp: log_call_def)

lemma py_getitem_result: "py_getitem d k = Inr v \<longleftrightarrow> d k = Some v"
  by (simp add: py_getitem_def split: option.splits)

lemma common_step_result:
  assumes "common_step th self global_step batch batch_idx stage s = (Inr info, s')"
  shows "(\<exists>source target images labels timesteps noise noisy_source noisy_target
      noise_source_pred noise_target_pred loss_source loss_target class_prob
      sample_source sample_target sample_prev sample_next sample_prev_pred sample_next_pred
      loss_prev loss_next w1 w2 w3 s4.
    batch ''source'' = Some source \<and> batch ''target'' = Some target \<and>
    batch ''images'' = Some images \<and> batch ''labels'' = Some labels \<and>
    randint th 0 (lm_scheduler_num_train_timesteps self) (shape0 th source) (rng s)
      = (Inr timesteps, w1) \<and>
    randn_like th source w1 = (Inr noise, w2) \<and>
    add_noise th source noise timesteps = Inr noisy_source \<and>
    add_noise th target noise timesteps = Inr noisy_target \<and>
    noise2space th noisy_source timesteps (zeros th (shape0 th source)) = Inr noise_source_pred \<and>
    noise2space th noisy_target timesteps (ones th (shape0 th source)) = Inr noise_target_pred \<and>
    loss_func th noise noise_source_pred = Inr loss_source \<and>
    loss_func th noise noise_target_pred = Inr loss_target \<and>
    rand th (shape0 th source) w2 = (Inr class_prob, w3) \<and>
    for_each
      (denoise_round th (zeros th (shape0 th source)) (ones th (shape0 th source))
         (times_int th class_prob (lm_num_timesteps self))
         (plus_one th (times_int th class_prob (lm_num_timesteps self))))
      (py_range (lm_num_timesteps self)) (noise, noise, noise, noise) (s\<lparr>rng := w3\<rparr>)
      = (Inr (sample_source, sample_target, sample_prev, sample_next), s4) \<and>
    image2label th sample_prev (times_int th class_prob (lm_num_timesteps self))
      = Inr sample_prev_pred \<and>
    label2image th sample_next (plus_one th (times_int th class_prob (lm_num_timesteps self)))
      = Inr sample_next_pred \<and>
    loss_func th sample_prev sample_prev_pred = Inr loss_prev \<and>
    loss_func th sample_next sample_next_pred = Inr loss_next \<and>
    visualize th stage batch_idx global_step [source, target]
      [sample_source, sample_target, sample_prev, sample_next, sample_prev_pred,
       sample_next_pred]
      (s4\<lparr>logs := logs s4 @
         [LogScalar (stage @ ''_super_loss'') (loss_source + loss_target) (stage = ''train''),
          LogScalar (stage @ ''_unsup_loss'') (loss_prev + loss_next) (stage = ''train'')]\<rparr>)
      = (Inr (), s') \<and>
    info = [(''loss'', (loss_source + loss_target) + (loss_prev + loss_next))])"
  using assms unfolding common_step_def Let_def
  apply (simp only: seq_result pure_stmt_result on_rng_result log_call_result ret_result
      py_getitem_result)
  apply (elim exE conjE)
  apply (simp split: prod.splits)
  apply (simp only: seq_result pure_stmt_result on_rng_result log_call_result ret_result
      py_getitem_result)
  apply (elim exE conjE)
  apply simp
  done

lemma common_step_returns:
  assumes "(\<exists>source target images labels timesteps noise noisy_source noisy_target
      noise_source_pred noise_target_pred loss_source loss_target class_prob
      sample_source sample_target sample_prev sample_next sample_prev_pred sample_next_pred
      loss_prev loss_next w1 w2 w3 s4.
    batch ''source'' = Some source \<and> batch ''target'' = Some target \<and>
    batch ''images'' = Some images \<and> batch ''labels'' = Some labels \<and>
    randint th 0 (lm_scheduler_num_train_timesteps self) (shape0 th source) (rng s)
      = (Inr timesteps, w1) \<and>
    randn_like th source w1 = (Inr noise, w2) \<and>
    add_noise th source noise timesteps = Inr noisy_source \<and>
    add_noise th target noise timesteps = Inr noisy_target \<and>
    noise2space th noisy_source timesteps (zeros th (shape0 th source)) = Inr noise_source_pred \<and>
    noise2space th noisy_target timesteps (ones th (shape0 th source)) = Inr noise_target_pred \<and>
    loss_func th noise noise_source_pred = Inr loss_source \<and>
    loss_func th noise noise_target_pred = Inr loss_target \<and>
    rand th (shape0 th source) w2 = (Inr class_prob, w3) \<and>
    for_each
      (denoise_round th (zeros th (shape0 th source)) (ones th (shape0 th source))
         (times_int th class_prob (lm_num_timesteps self))
         (plus_one th (times_int th class_prob (lm_num_timesteps self))))
      (py_range (lm_num_timesteps self)) (noise, noise, noise, noise) (s\<lparr>rng := w3\<rparr>)
      = (Inr (sample_source, sample_target, sample_prev, sample_next), s4) \<and>
    image2label th sample_prev (times_int th class_prob (lm_num_timesteps self))
      = Inr sample_prev_pred \<and>
    label2image th sample_next (plus_one th (times_int th class_prob (lm_num_timesteps self)))
      = Inr sample_next_pred \<and>
    loss_func th sample_prev sample_prev_pred = Inr loss_prev \<and>
    loss_func th sample_next sample_next_pred = Inr loss_next \<and>
    visualize th stage batch_idx global_step [source, target]
      [sample_source, sample_target, sample_prev, sample_next, sample_prev_pred,
       sample_next_pred]
      (s4\<lparr>logs := logs s4 @
         [LogScalar (stage @ ''_super_loss'') (loss_source + loss_target) (stage = ''train''),
          LogScalar (stage @ ''_unsup_loss'') (loss_prev + loss_next) (stage = ''train'')]\<rparr>)
      = (Inr (), s') \<and>
    info = [(''loss'', (loss_source + loss_target) + (loss_prev + loss_next))])"
  shows "common_step th self global_step batch batch_idx stage s = (Inr info, s')"
  using assms
  apply (elim exE conjE)
  apply (simp add: common_step_def seq_def pure_stmt_def on_rng_def log_call_def ret_def
      py_getitem_def Let_def)
  done

lemma denoise_round_iff:
  "denoise_round th cs ct cp cn t (a, b, c, d) s0 = (Inr (a', b', c', d'), s1) \<longleftrightarrow>
     (\<exists>oa ob oc od pa pb pc pd wa wb wc wd.
        noise2space th a (timestep_tensor th t) cs = Inr oa \<and>
        noise2space th b (timestep_tensor th t) ct = Inr ob \<and>
        scheduler_step th oa t a (rng s0) = (Inr (a', pa), wa) \<and>
        scheduler_step th ob t b wa = (Inr (b', pb), wb) \<and>
        noise2space th c (timestep_tensor th t) cp = Inr oc \<and>
        noise2space th d (timestep_tensor th t) cn = Inr od \<and>
        scheduler_step th oc t c wb = (Inr (c', pc), wc) \<and>
        scheduler_step th od t d wc = (Inr (d', pd), wd) \<and>
        s1 = s0\<lparr>rng := wd\<rparr>)"
  unfolding denoise_round_def prod.case
  apply (simp only: seq_result pure_stmt_result on_rng_result ret_result)
  apply (rule iffI)
   apply (elim exE conjE)
   apply (simp, metis prod.collapse)
  apply (elim exE conjE)
  apply simp
  done

lemma for_each_Cons_iff:
  "for_each body (t # ts) x s0 = (Inr y, s1) \<longleftrightarrow>
     (\<exists>x1 s2. body t x s0 = (Inr x1, s2) \<and> for_each body ts x1 s2 = (Inr y, s1))"
  by (simp add: seq_result)

lemma for_each_Nil: "for_each body [] x s0 = (Inr x, s0)"
  by (simp add: ret_def)

lemma visualize_iff:
  "visualize th stage batch_idx global_step inputs samples s0 = (Inr (), s1) \<longleftrightarrow>
     (if stage = ''train'' \<and> batch_idx mod 10 = 0
      then \<exists>grid. make_grid th (inputs @ map (rescale th) samples) = Inr grid \<and>
             s1 = s0\<lparr>logs := logs s0 @
               [AddImage (stage @ ''_samples'') grid (global_step div 10)]\<rparr>
      else s1 = s0)"
  by (auto simp: visualize_def Let_def seq_result pure_stmt_result log_call_result ret_result)

text \<open>
  C1. A training, validation or test step returns exactly when the batch has the four
  keys \<^verbatim>\<open>source\<close>, \<^verbatim>\<open>target\<close>, \<^verbatim>\<open>images\<close>, \<^verbatim>\<open>labels\<close> and the calls it makes on them
  return, the logging of the image on every tenth training batch among them; and the loss
  it returns is then the sum of two terms. The first is the sum of the two losses between
  the drawn noise and what \<^verbatim>\<open>noise2space\<close> predicts on the noised source and on the noised
  target. The second is the sum of the two losses between \<^verbatim>\<open>sample_prev\<close>,
  \<^verbatim>\<open>sample_next\<close> as the denoising loop leaves them and what \<^verbatim>\<open>image2label\<close>,
  \<^verbatim>\<open>label2image\<close> predict on them. One round of the loop, for each timestep of
  \<^verbatim>\<open>range(num_timesteps)\<close> in turn, has \<^verbatim>\<open>noise2space\<close> predict on each of the four samples and
  the scheduler step each of them. The datasets behind the training and the validation
  loader, the two loaders the data module defines, are built on those four keys, from the
  data module's four file lists each.
\<close>

theorem step_loss_is_super_plus_unsup:
  assumes "(step, stage) = (training_step th self global_step batch batch_idx, ''train'') \<or>
           (step, stage) = (validation_step th self global_step batch batch_idx, ''validation'') \<or>
           (step, stage) = (test_step th self global_step batch batch_idx, ''test'')"
  shows "(step s = (Inr info, s') \<longleftrightarrow>
   (\<exists>source target images labels timesteps noise noisy_source noisy_target
      noise_source_pred noise_target_pred loss_source loss_target class_prob
      sample_source sample_target sample_prev sample_next sample_prev_pred sample_next_pred
      loss_prev loss_next w1 w2 w3 s4.
    batch ''source'' = Some source \<and> batch ''target'' = Some target \<and>
    batch ''images'' = Some images \<and> batch ''labels'' = Some labels \<and>
    randint th 0 (lm_scheduler_num_train_timesteps self) (shape0 th source) (rng s)
      = (Inr timesteps, w1) \<and>
    randn_like th source w1 = (Inr noise, w2) \<and>
    add_noise th source noise timesteps = Inr noisy_source \<and>
    add_noise th target noise timesteps = Inr noisy_target \<and>
    noise2space th noisy_source timesteps (zeros th (shape0 th source)) = Inr noise_source_pred \<and>
    noise2space th noisy_target timesteps (ones th (shape0 th source)) = Inr noise_target_pred \<and>
    loss_func th noise noise_source_pred = Inr loss_source \<and>
    loss_func th noise noise_target_pred = Inr loss_target \<and>
    rand th (shape0 th source) w2 = (Inr class_prob, w3) \<and>
    for_each
      (denoise_round th (zeros th (shape0 th source)) (ones th (shape0 th source))
         (times_int th class_prob (lm_num_timesteps self))
         (plus_one th (times_int th class_prob (lm_num_timesteps self))))
      (py_range (lm_num_timesteps self)) (noise, noise, noise, noise) (s\<lparr>rng := w3\<rparr>)
      = (Inr (sample_source, sample_target, sample_prev, sample_next), s4) \<and>
    image2label th sample_prev (times_int th class_prob (lm_num_timesteps self))
      = Inr sample_prev_pred \<and>
    label2image th sample_next (plus_one th (times_int th class_prob (lm_num_timesteps self)))
      = Inr sample_next_pred \<and>
    loss_func th sample_prev sample_prev_pred = Inr loss_prev \<and>
    loss_func th sample_next sample_next_pred = Inr loss_next \<and>
    visualize th stage batch_idx global_step [source, target]
      [sample_source, sample_target, sample_prev, sample_next, sample_prev_pred,
       sample_next_pred]
      (s4\<lparr>logs := logs s4 @
         [LogScalar (stage @ ''_super_loss'') (loss_source + loss_target) (stage = ''train''),
          LogScalar (stage @ ''_unsup_loss'') (loss_prev + loss_next) (stage = ''train'')]\<rparr>)
      = (Inr (), s') \<and>
    info = [(''loss'', (loss_source + loss_target) + (loss_prev + loss_next))])) \<and>
   (denoise_round th cs ct cp cn t (a, b, c, d) s0 = (Inr (a', b', c', d'), s1) \<longleftrightarrow>
     (\<exists>oa ob oc od pa pb pc pd wa wb wc wd.
        noise2space th a (timestep_tensor th t) cs = Inr oa \<and>
        noise2space th b (timestep_tensor th t) ct = Inr ob \<and>
        scheduler_step th oa t a (rng s0) = (Inr (a', pa), wa) \<and>
        scheduler_step th ob t b wa = (Inr (b', pb), wb) \<and>
        noise2space th c (timestep_tensor th t) cp = Inr oc \<and>
        noise2space th d (timestep_tensor th t) cn = Inr od \<and>
        scheduler_step th oc t c wb = (Inr (c', pc), wc) \<and>
        scheduler_step th od t d wc = (Inr (d', pd), wd) \<and>
        s1 = s0\<lparr>rng := wd\<rparr>)) \<and>
   for_each body [] x s0 = (Inr x, s0) \<and>
   (for_each body (t # ts) x s0 = (Inr y, s1) \<longleftrightarrow>
     (\<exists>x1 s2. body t x s0 = (Inr x1, s2) \<and> for_each body ts x1 s2 = (Inr y, s1))) \<and>
   py_range n = [0..<nat n] \<and>
   (visualize th stage batch_idx global_step inputs samples s0 = (Inr (), s1) \<longleftrightarrow>
     (if stage = ''train'' \<and> batch_idx mod 10 = 0
      then \<exists>grid. make_grid th (inputs @ map (rescale th) samples) = Inr grid \<and>
             s1 = s0\<lparr>logs := logs s0 @
               [AddImage (stage @ ''_samples'') grid (global_step div 10)]\<rparr>
      else s1 = s0)) \<and>
   ds_keys (dl_dataset (train_dataloader train_transforms R0 dm)) = [''source'', ''target'', ''images'', ''labels''] \<and>
   ds_data (dl_dataset (train_dataloader train_transforms R0 dm)) =
     [map Path (train_ssource_files dm), map Path (train_starget_files dm),
      map Path (train_usource_files dm), map Path (train_utarget_files dm)] \<and>
   ds_keys (dl_dataset (val_dataloader val_transforms R0 dm)) = [''source'', ''target'', ''images'', ''labels''] \<and>
   ds_data (dl_dataset (val_dataloader val_transforms R0 dm)) =
     [map Path (val_ssource_files dm), map Path (val_starget_files dm),
      map Path (val_usource_files dm), map Path (val_utarget_files dm)]"
proof -
  from assms have step: "step = common_step th self global_step batch batch_idx stage"
    by (auto simp: training_step_def validation_step_def test_step_def)
  have returns: "step s = (Inr info, s') \<longleftrightarrow>
   (\<exists>source target images labels timesteps noise noisy_source noisy_target
      noise_source_pred noise_target_pred loss_source loss_target class_prob
      sample_source sample_target sample_prev sample_next sample_prev_pred sample_next_pred
      loss_prev loss_next w1 w2 w3 s4.
    batch ''source'' = Some source \<and> batch ''target'' = Some target \<and>
    batch ''images'' = Some images \<and> batch ''labels'' = Some labels \<and>
    randint th 0 (lm_scheduler_num_train_timesteps self) (shape0 th source) (rng s)
      = (Inr timesteps, w1) \<and>
    randn_like th source w1 = (Inr noise, w2) \<and>
    add_noise th source noise timesteps = Inr noisy_source \<and>
    add_noise th target noise timesteps = Inr noisy_target \<and>
    noise2space th noisy_source timesteps (zeros th (shape0 th source)) = Inr noise_source_pred \<and>
    noise2space th noisy_target timesteps (ones th (shape0 th source)) = Inr noise_target_pred \<and>
    loss_func th noise noise_source_pred = Inr loss_source \<and>
    loss_func th noise noise_target_pred = Inr loss_target \<and>
    rand th (shape0 th source) w2 = (Inr class_prob, w3) \<and>
    for_each
      (denoise_round th (zeros th (shape0 th source)) (ones th (shape0 th source))
         (times_int th class_prob (lm_num_timesteps self))
         (plus_one th (times_int th class_prob (lm_num_timesteps self))))
      (py_range (lm_num_timesteps self)) (noise, noise, noise, noise) (s\<lparr>rng := w3\<rparr>)
      = (Inr (sample_source, sample_target, sample_prev, sample_next), s4) \<and>
    image2label th sample_prev (times_int th class_prob (lm_num_timesteps self))
      = Inr sample_prev_pred \<and>
    label2image th sample_next (plus_one th (times_int th class_prob (lm_num_timesteps self)))
      = Inr sample_next_pred \<and>
    loss_func th sample_prev sample_prev_pred = Inr loss_prev \<and>
    loss_func th sample_next sample_next_pred = Inr loss_next \<and>
    visualize th stage batch_idx global_step [source, target]
      [sample_source, sample_target, sample_prev, sample_next, sample_prev_pred,
       sample_next_pred]
      (s4\<lparr>logs := logs s4 @
         [LogScalar (stage @ ''_super_loss'') (loss_source + loss_target) (stage = ''train''),
          LogScalar (stage @ ''_unsup_loss'') (loss_prev + loss_next) (stage = ''train'')]\<rparr>)
      = (Inr (), s') \<and>
    info = [(''loss'', (loss_source + loss_target) + (loss_prev + loss_next))])"
  proof -
    have "common_step th self global_step batch batch_idx stage s = (Inr info, s') \<longleftrightarrow>
   (\<exists>source target images labels timesteps noise noisy_source noisy_target
      noise_source_pred noise_target_pred loss_source loss_target class_prob
      sample_source sample_target sample_prev sample_next sample_prev_pred sample_next_pred
      loss_prev loss_next w1 w2 w3 s4.
    batch ''source'' = Some source \<and> batch ''target'' = Some target \<and>
    batch ''images'' = Some images \<and> batch ''labels'' = Some labels \<and>
    randint th 0 (lm_scheduler_num_train_timesteps self) (shape0 th source) (rng s)
      = (Inr timesteps, w1) \<and>
    randn_like th source w1 = (Inr noise, w2) \<and>
    add_noise th source noise timesteps = Inr noisy_source \<and>
    add_noise th target noise timesteps = Inr noisy_target \<and>
    noise2space th noisy_source timesteps (zeros th (shape0 th source)) = Inr noise_source_pred \<and>
    noise2space th noisy_target timesteps (ones th (shape0 th source)) = Inr noise_target_pred \<and>
    loss_func th noise noise_source_pred = Inr loss_source \<and>
    loss_func th noise noise_target_pred = Inr loss_target \<and>
    rand th (shape0 th source) w2 = (Inr class_prob, w3) \<and>
    for_each
      (denoise_round th (zeros th (shape0 th source)) (ones th (shape0 th source))
         (times_int th class_prob (lm_num_timesteps self))
         (plus_one th (times_int th class_prob (lm_num_timesteps self))))
      (py_range (lm_num_timesteps self)) (noise, noise, noise, noise) (s\<lparr>rng := w3\<rparr>)
      = (Inr (sample_source, sample_target, sample_prev, sample_next), s4) \<and>
    image2label th sample_prev (times_int th class_prob (lm_num_timesteps self))
      = Inr sample_prev_pred \<and>
    label2image th sample_next (plus_one th (times_int th class_prob (lm_num_timesteps self)))
      = Inr sample_next_pred \<and>
    loss_func th sample_prev sample_prev_pred = Inr loss_prev \<and>
    loss_func th sample_next sample_next_pred = Inr loss_next \<and>
    visualize th stage batch_idx global_step [source, target]
      [sample_source, sample_target, sample_prev, sample_next, sample_prev_pred,
       sample_next_pred]
      (s4\<lparr>logs := logs s4 @
         [LogScalar (stage @ ''_super_loss'') (loss_source + loss_target) (stage = ''train''),
          LogScalar (stage @ ''_unsup_loss'') (loss_prev + loss_next) (stage = ''train'')]\<rparr>)
      = (Inr (), s') \<and>
    info = [(''loss'', (loss_source + loss_target) + (loss_prev + loss_next))])"
      by (rule iffI [OF common_step_result common_step_returns])
    then show ?thesis by (simp only: step)
  qed
  have parts: "(denoise_round th cs ct cp cn t (a, b, c, d) s0 = (Inr (a', b', c', d'), s1) \<longleftrightarrow>
     (\<exists>oa ob oc od pa pb pc pd wa wb wc wd.
        noise2space th a (timestep_tensor th t) cs = Inr oa \<and>
        noise2space th b (timestep_tensor th t) ct = Inr ob \<and>
        scheduler_step th oa t a (rng s0) = (Inr (a', pa), wa) \<and>
        scheduler_step th ob t b wa = (Inr (b', pb), wb) \<and>
        noise2space th c (timestep_tensor th t) cp = Inr oc \<and>
        noise2space th d (timestep_tensor th t) cn = Inr od \<and>
        scheduler_step th oc t c wb = (Inr (c', pc), wc) \<and>
        scheduler_step th od t d wc = (Inr (d', pd), wd) \<and>
        s1 = s0\<lparr>rng := wd\<rparr>)) \<and>
   for_each body [] x s0 = (Inr x, s0) \<and>
   (for_each body (t # ts) x s0 = (Inr y, s1) \<longleftrightarrow>
     (\<exists>x1 s2. body t x s0 = (Inr x1, s2) \<and> for_each body ts x1 s2 = (Inr y, s1))) \<and>
   py_range n = [0..<nat n] \<and>
   (visualize th stage batch_idx global_step inputs samples s0 = (Inr (), s1) \<longleftrightarrow>
     (if stage = ''train'' \<and> batch_idx mod 10 = 0
      then \<exists>grid. make_grid th (inputs @ map (rescale th) samples) = Inr grid \<and>
             s1 = s0\<lparr>logs := logs s0 @
               [AddImage (stage @ ''_samples'') grid (global_step div 10)]\<rparr>
      else s1 = s0))"
    by (intro conjI denoise_round_iff for_each_Nil for_each_Cons_iff visualize_iff)
      (simp add: py_range_def)
  have loaders: "ds_keys (dl_dataset (train_dataloader train_transforms R0 dm)) = [''source'', ''target'', ''images'', ''labels''] \<and>
   ds_data (dl_dataset (train_dataloader train_transforms R0 dm)) =
     [map Path (train_ssource_files dm), map Path (train_starget_files dm),
      map Path (train_usource_files dm), map Path (train_utarget_files dm)] \<and>
   ds_keys (dl_dataset (val_dataloader val_transforms R0 dm)) = [''source'', ''target'', ''images'', ''labels''] \<and>
   ds_data (dl_dataset (val_dataloader val_transforms R0 dm)) =
     [map Path (val_ssource_files dm), map Path (val_starget_files dm),
      map Path (val_usource_files dm), map Path (val_utarget_files dm)]"
    by (simp add: train_dataloader_def val_dataloader_def Let_def)
  show ?thesis
    by (rule conjI [OF returns conjI [OF parts [THEN conjunct1]
          conjI [OF parts [THEN conjunct2, THEN conjunct1]
          conjI [OF parts [THEN conjunct2, THEN conjunct2, THEN conjunct1]
          conjI [OF parts [THEN conjunct2, THEN conjunct2, THEN conjunct2, THEN conjunct1]
          conjI [OF parts [THEN conjunct2, THEN conjunct2, THEN conjunct2, THEN conjunct2]
          loaders]]]]]])
qed

text \<open>
  On the toy batch each of the three steps returns the loss 8, the sum of 5 and 3; only
  the training step logs an image.
\<close>

theorem step_loss_is_super_plus_unsup_witness:
  "training_step toy_torch toy_module 30 toy_batch 0 (\<lparr>rng = 0, logs = []\<rparr> :: (int, nat) step_state) =
     (Inr [(''loss'', 8)],
      \<lparr>rng = 3,
       logs = [LogScalar ''train_super_loss'' 5 True, LogScalar ''train_unsup_loss'' 3 True,
               AddImage ''train_samples'' (- 3) 3]\<rparr>) \<and>
   validation_step toy_torch toy_module 30 toy_batch 0 (\<lparr>rng = 0, logs = []\<rparr> :: (int, nat) step_state) =
     (Inr [(''loss'', 8)],
      \<lparr>rng = 3,
       logs = [LogScalar ''validation_super_loss'' 5 False, LogScalar ''validation_unsup_loss'' 3 False]\<rparr>) \<and>
   test_step toy_torch toy_module 30 toy_batch 0 (\<lparr>rng = 0, logs = []\<rparr> :: (int, nat) step_state) =
     (Inr [(''loss'', 8)],
      \<lparr>rng = 3,
       logs = [LogScalar ''test_super_loss'' 5 False, LogScalar ''test_unsup_loss'' 3 False]\<rparr>) \<and>
   (\<exists>source target images labels timesteps noise noisy_source noisy_target
      noise_source_pred noise_target_pred loss_source loss_target class_prob
      sample_source sample_target sample_prev sample_next sample_prev_pred sample_next_pred
      loss_prev loss_next w1 w2 w3 s4.
    toy_batch ''source'' = Some source \<and> toy_batch ''target'' = Some target \<and>
    toy_batch ''images'' = Some images \<and> toy_batch ''labels'' = Some labels \<and>
    randint toy_torch 0 (lm_scheduler_num_train_timesteps toy_module) (shape0 toy_torch source) (rng (\<lparr>rng = 0, logs = []\<rparr> :: (int, nat) step_state))
      = (Inr timesteps, w1) \<and>
    randn_like toy_torch source w1 = (Inr noise, w2) \<and>
    add_noise toy_torch source noise timesteps = Inr noisy_source \<and>
    add_noise toy_torch target noise timesteps = Inr noisy_target \<and>
    noise2space toy_torch noisy_source timesteps (zeros toy_torch (shape0 toy_torch source)) = Inr noise_source_pred \<and>
    noise2space toy_torch noisy_target timesteps (ones toy_torch (shape0 toy_torch source)) = Inr noise_target_pred \<and>
    loss_func toy_torch noise noise_source_pred = Inr loss_source \<and>
    loss_func toy_torch noise noise_target_pred = Inr loss_target \<and>
    rand toy_torch (shape0 toy_torch source) w2 = (Inr class_prob, w3) \<and>
    for_each
      (denoise_round toy_torch (zeros toy_torch (shape0 toy_torch source)) (ones toy_torch (shape0 toy_torch source))
         (times_int toy_torch class_prob (lm_num_timesteps toy_module))
         (plus_one toy_torch (times_int toy_torch class_prob (lm_num_timesteps toy_module))))
      (py_range (lm_num_timesteps toy_module)) (noise, noise, noise, noise) ((\<lparr>rng = 0, logs = []\<rparr> :: (int, nat) step_state)\<lparr>rng := w3\<rparr>)
      = (Inr (sample_source, sample_target, sample_prev, sample_next), s4) \<and>
    image2label toy_torch sample_prev (times_int toy_torch class_prob (lm_num_timesteps toy_module))
      = Inr sample_prev_pred \<and>
    label2image toy_torch sample_next (plus_one toy_torch (times_int toy_torch class_prob (lm_num_timesteps toy_module)))
      = Inr sample_next_pred \<and>
    loss_func toy_torch sample_prev sample_prev_pred = Inr loss_prev \<and>
    loss_func toy_torch sample_next sample_next_pred = Inr loss_next \<and>
    visualize toy_torch ''validation'' 0 30 [source, target]
      [sample_source, sample_target, sample_prev, sample_next, sample_prev_pred,
       sample_next_pred]
      (s4\<lparr>logs := logs s4 @
         [LogScalar (''validation'' @ ''_super_loss'') (loss_source + loss_target) (''validation'' = ''train''),
          LogScalar (''validation'' @ ''_unsup_loss'') (loss_prev + loss_next) (''validation'' = ''train'')]\<rparr>)
      = (Inr (), (\<lparr>rng = 3,
       logs = [LogScalar ''validation_super_loss'' 5 False, LogScalar ''validation_unsup_loss'' 3 False]\<rparr>)) \<and>
    [(''loss'', 8)] = [(''loss'', (loss_source + loss_target) + (loss_prev + loss_next))]) \<and>
   (\<exists>source target images labels timesteps noise noisy_source noisy_target
      noise_source_pred noise_target_pred loss_source loss_target class_prob
      sample_source sample_target sample_prev sample_next sample_prev_pred sample_next_pred
      loss_prev loss_next w1 w2 w3 s4.
    toy_batch ''source'' = Some source \<and> toy_batch ''target'' = Some target \<and>
    toy_batch ''images'' = Some images \<and> toy_batch ''labels'' = Some labels \<and>
    randint toy_torch 0 (lm_scheduler_num_train_timesteps toy_module) (shape0 toy_torch source) (rng (\<lparr>rng = 0, logs = []\<rparr> :: (int, nat) step_state))
      = (Inr timesteps, w1) \<and>
    randn_like toy_torch source w1 = (Inr noise, w2) \<and>
    add_noise toy_torch source noise timesteps = Inr noisy_source \<and>
    add_noise toy_torch target noise timesteps = Inr noisy_target \<and>
    noise2space toy_torch noisy_source timesteps (zeros toy_torch (shape0 toy_torch source)) = Inr noise_source_pred \<and>
    noise2space toy_torch noisy_target timesteps (ones toy_torch (shape0 toy_torch source)) = Inr noise_target_pred \<and>
    loss_func toy_torch noise noise_source_pred = Inr loss_source \<and>
    loss_func toy_torch noise noise_target_pred = Inr loss_target \<and>
    rand toy_torch (shape0 toy_torch source) w2 = (Inr class_prob, w3) \<and>
    for_each
      (denoise_round toy_torch (zeros toy_torch (shape0 toy_torch source)) (ones toy_torch (shape0 toy_torch source))
         (times_int toy_torch class_prob (lm_num_timesteps toy_module))
         (plus_one toy_torch (times_int toy_torch class_prob (lm_num_timesteps toy_module))))
      (py_range (lm_num_timesteps toy_module)) (noise, noise, noise, noise) ((\<lparr>rng = 0, logs = []\<rparr> :: (int, nat) step_state)\<lparr>rng := w3\<rparr>)
      = (Inr (sample_source, sample_target, sample_prev, sample_next), s4) \<and>
    image2label toy_torch sample_prev (times_int toy_torch class_prob (lm_num_timesteps toy_module))
      = Inr sample_prev_pred \<and>
    label2image toy_torch sample_next (plus_one toy_torch (times_int toy_torch class_prob (lm_num_timesteps toy_module)))
      = Inr sample_next_pred \<and>
    loss_func toy_torch sample_prev sample_prev_pred = Inr loss_prev \<and>
    loss_func toy_torch sample_next sample_next_pred = Inr loss_next \<and>
    visualize toy_torch ''test'' 0 30 [source, target]
      [sample_source, sample_target, sample_prev, sample_next, sample_prev_pred,
       sample_next_pred]
      (s4\<lparr>logs := logs s4 @
         [LogScalar (''test'' @ ''_super_loss'') (loss_source + loss_target) (''test'' = ''train''),
          LogScalar (''test'' @ ''_unsup_loss'') (loss_prev + loss_next) (''test'' = ''train'')]\<rparr>)
      = (Inr (), (\<lparr>rng = 3,
       logs = [LogScalar ''test_super_loss'' 5 False, LogScalar ''test_unsup_loss'' 3 False]\<rparr>)) \<and>
    [(''loss'', 8)] = [(''loss'', (loss_source + loss_target) + (loss_prev + loss_next))]) \<and>
   ds_keys (dl_dataset (train_dataloader toy_transforms (0::nat) example_datamodule)) = [''source'', ''target'', ''images'', ''labels''] \<and>
   ds_data (dl_dataset (train_dataloader toy_transforms (0::nat) example_datamodule)) =
     [map Path (train_ssource_files example_datamodule), map Path (train_starget_files example_datamodule),
      map Path (train_usource_files example_datamodule), map Path (train_utarget_files example_datamodule)] \<and>
   ds_keys (dl_dataset (val_dataloader toy_transforms (0::nat) example_datamodule)) = [''source'', ''target'', ''images'', ''labels''] \<and>
   ds_data (dl_dataset (val_dataloader toy_transforms (0::nat) example_datamodule)) =
     [map Path (val_ssource_files example_datamodule), map Path (val_starget_files example_datamodule),
      map Path (val_usource_files example_datamodule), map Path (val_utarget_files example_datamodule)]"
proof -
  note run = common_step_def toy_torch_def toy_batch_def toy_module_def seq_def pure_stmt_def
    on_rng_def log_call_def ret_def py_getitem_def py_range_def denoise_round_def
    visualize_def upt_rec Let_def
  have train: "training_step toy_torch toy_module 30 toy_batch 0 (\<lparr>rng = 0, logs = []\<rparr> :: (int, nat) step_state) =
     (Inr [(''loss'', 8)],
      \<lparr>rng = 3,
       logs = [LogScalar ''train_super_loss'' 5 True, LogScalar ''train_unsup_loss'' 3 True,
               AddImage ''train_samples'' (- 3) 3]\<rparr>)"
    by (simp add: training_step_def run)
  have val: "validation_step toy_torch toy_module 30 toy_batch 0 (\<lparr>rng = 0, logs = []\<rparr> :: (int, nat) step_state) =
     (Inr [(''loss'', 8)],
      \<lparr>rng = 3,
       logs = [LogScalar ''validation_super_loss'' 5 False, LogScalar ''validation_unsup_loss'' 3 False]\<rparr>)"
    by (simp add: validation_step_def run)
  have test: "test_step toy_torch toy_module 30 toy_batch 0 (\<lparr>rng = 0, logs = []\<rparr> :: (int, nat) step_state) =
     (Inr [(''loss'', 8)],
      \<lparr>rng = 3,
       logs = [LogScalar ''test_super_loss'' 5 False, LogScalar ''test_unsup_loss'' 3 False]\<rparr>)"
    by (simp add: test_step_def run)
  note of_train = step_loss_is_super_plus_unsup [where stage = "''train''", OF disjI1 [OF refl],
      where train_transforms = toy_transforms and val_transforms = toy_transforms
      and ?R0.0 = "0::nat" and dm = example_datamodule]
  note of_val = step_loss_is_super_plus_unsup [where stage = "''validation''",
      OF disjI2 [OF disjI1 [OF refl]]]
  note of_test = step_loss_is_super_plus_unsup [where stage = "''test''",
      OF disjI2 [OF disjI2 [OF refl]]]
  have loaders: "ds_keys (dl_dataset (train_dataloader toy_transforms (0::nat) example_datamodule)) = [''source'', ''target'', ''images'', ''labels''] \<and>
   ds_data (dl_dataset (train_dataloader toy_transforms (0::nat) example_datamodule)) =
     [map Path (train_ssource_files example_datamodule), map Path (train_starget_files example_datamodule),
      map Path (train_usource_files example_datamodule), map Path (train_utarget_files example_datamodule)] \<and>
   ds_keys (dl_dataset (val_dataloader toy_transforms (0::nat) example_datamodule)) = [''source'', ''target'', ''images'', ''labels''] \<and>
   ds_data (dl_dataset (val_dataloader toy_transforms (0::nat) example_datamodule)) =
     [map Path (val_ssource_files example_datamodule), map Path (val_starget_files example_datamodule),
      map Path (val_usource_files example_datamodule), map Path (val_utarget_files example_datamodule)]"
    by (rule of_train [THEN conjunct2, THEN conjunct2, THEN conjunct2, THEN conjunct2,
          THEN conjunct2, THEN conjunct2])
  have val_calls: "(\<exists>source target images labels timesteps noise noisy_source noisy_target
      noise_source_pred noise_target_pred loss_source loss_target class_prob
      sample_source sample_target sample_prev sample_next sample_prev_pred sample_next_pred
      loss_prev loss_next w1 w2 w3 s4.
    toy_batch ''source'' = Some source \<and> toy_batch ''target'' = Some target \<and>
    toy_batch ''images'' = Some images \<and> toy_batch ''labels'' = Some labels \<and>
    randint toy_torch 0 (lm_scheduler_num_train_timesteps toy_module) (shape0 toy_torch source) (rng (\<lparr>rng = 0, logs = []\<rparr> :: (int, nat) step_state))
      = (Inr timesteps, w1) \<and>
    randn_like toy_torch source w1 = (Inr noise, w2) \<and>
    add_noise toy_torch source noise timesteps = Inr noisy_source \<and>
    add_noise toy_torch target noise timesteps = Inr noisy_target \<and>
    noise2space toy_torch noisy_source timesteps (zeros toy_torch (shape0 toy_torch source)) = Inr noise_source_pred \<and>
    noise2space toy_torch noisy_target timesteps (ones toy_torch (shape0 toy_torch source)) = Inr noise_target_pred \<and>
    loss_func toy_torch noise noise_source_pred = Inr loss_source \<and>
    loss_func toy_torch noise noise_target_pred = Inr loss_target \<and>
    rand toy_torch (shape0 toy_torch source) w2 = (Inr class_prob, w3) \<and>
    for_each
      (denoise_round toy_torch (zeros toy_torch (shape0 toy_torch source)) (ones toy_torch (shape0 toy_torch source))
         (times_int toy_torch class_prob (lm_num_timesteps toy_module))
         (plus_one toy_torch (times_int toy_torch class_prob (lm_num_timesteps toy_module))))
      (py_range (lm_num_timesteps toy_module)) (noise, noise, noise, noise) ((\<lparr>rng = 0, logs = []\<rparr> :: (int, nat) step_state)\<lparr>rng := w3\<rparr>)
      = (Inr (sample_source, sample_target, sample_prev, sample_next), s4) \<and>
    image2label toy_torch sample_prev (times_int toy_torch class_prob (lm_num_timesteps toy_module))
      = Inr sample_prev_pred \<and>
    label2image toy_torch sample_next (plus_one toy_torch (times_int toy_torch class_prob (lm_num_timesteps toy_module)))
      = Inr sample_next_pred \<and>
    loss_func toy_torch sample_prev sample_prev_pred = Inr loss_prev \<and>
    loss_func toy_torch sample_next sample_next_pred = Inr loss_next \<and>
    visualize toy_torch ''validation'' 0 30 [source, target]
      [sample_source, sample_target, sample_prev, sample_next, sample_prev_pred,
       sample_next_pred]
      (s4\<lparr>logs := logs s4 @
         [LogScalar (''validation'' @ ''_super_loss'') (loss_source + loss_target) (''validation'' = ''train''),
          LogScalar (''validation'' @ ''_unsup_loss'') (loss_prev + loss_next) (''validation'' = ''train'')]\<rparr>)
      = (Inr (), (\<lparr>rng = 3,
       logs = [LogScalar ''validation_super_loss'' 5 False, LogScalar ''validation_unsup_loss'' 3 False]\<rparr>)) \<and>
    [(''loss'', 8)] = [(''loss'', (loss_source + loss_target) + (loss_prev + loss_next))])"
    by (rule of_val [THEN conjunct1, THEN iffD1, OF val])
  have test_calls: "(\<exists>source target images labels timesteps noise noisy_source noisy_target
      noise_source_pred noise_target_pred loss_source loss_target class_prob
      sample_source sample_target sample_prev sample_next sample_prev_pred sample_next_pred
      loss_prev loss_next w1 w2 w3 s4.
    toy_batch ''source'' = Some source \<and> toy_batch ''target'' = Some target \<and>
    toy_batch ''images'' = Some images \<and> toy_batch ''labels'' = Some labels \<and>
    randint toy_torch 0 (lm_scheduler_num_train_timesteps toy_module) (shape0 toy_torch source) (rng (\<lparr>rng = 0, logs = []\<rparr> :: (int, nat) step_state))
      = (Inr timesteps, w1) \<and>
    randn_like toy_torch source w1 = (Inr noise, w2) \<and>
    add_noise toy_torch source noise timesteps = Inr noisy_source \<and>
    add_noise toy_torch target noise timesteps = Inr noisy_target \<and>
    noise2space toy_torch noisy_source timesteps (zeros toy_torch (shape0 toy_torch source)) = Inr noise_source_pred \<and>
    noise2space toy_torch noisy_target timesteps (ones toy_torch (shape0 toy_torch source)) = Inr noise_target_pred \<and>
    loss_func toy_torch noise noise_source_pred = Inr loss_source \<and>
    loss_func toy_torch noise noise_target_pred = Inr loss_target \<and>
    rand toy_torch (shape0 toy_torch source) w2 = (Inr class_prob, w3) \<and>
    for_each
      (denoise_round toy_torch (zeros toy_torch (shape0 toy_torch source)) (ones toy_torch (shape0 toy_torch source))
         (times_int toy_torch class_prob (lm_num_timesteps toy_module))
         (plus_one toy_torch (times_int toy_torch class_prob (lm_num_timesteps toy_module))))
      (py_range (lm_num_timesteps toy_module)) (noise, noise, noise, noise) ((\<lparr>rng = 0, logs = []\<rparr> :: (int, nat) step_state)\<lparr>rng := w3\<rparr>)
      = (Inr (sample_source, sample_target, sample_prev, sample_next), s4) \<and>
    image2label toy_torch sample_prev (times_int toy_torch class_prob (lm_num_timesteps toy_module))
      = Inr sample_prev_pred \<and>
    label2image toy_torch sample_next (plus_one toy_torch (times_int toy_torch class_prob (lm_num_timesteps toy_module)))
      = Inr sample_next_pred \<and>
    loss_func toy_torch sample_prev sample_prev_pred = Inr loss_prev \<and>
    loss_func toy_torch sample_next sample_next_pred = Inr loss_next \<and>
    visualize toy_torch ''test'' 0 30 [source, target]
      [sample_source, sample_target, sample_prev, sample_next, sample_prev_pred,
       sample_next_pred]
      (s4\<lparr>logs := logs s4 @
         [LogScalar (''test'' @ ''_super_loss'') (loss_source + loss_target) (''test'' = ''train''),
          LogScalar (''test'' @ ''_unsup_loss'') (loss_prev + loss_next) (''test'' = ''train'')]\<rparr>)
      = (Inr (), (\<lparr>rng = 3,
       logs = [LogScalar ''test_super_loss'' 5 False, LogScalar ''test_unsup_loss'' 3 False]\<rparr>)) \<and>
    [(''loss'', 8)] = [(''loss'', (loss_source + loss_target) + (loss_prev + loss_next))])"
    by (rule of_test [THEN conjunct1, THEN iffD1, OF test])
  show ?thesis
    by (rule conjI [OF train conjI [OF val conjI [OF test conjI [OF val_calls
      conjI [OF test_calls loaders]]]]])
qed

section \<open>Exceptions are handed on\<close>


lemma pure_stmt_error: "pure_stmt r s = (Inl e, s') \<longleftrightarrow> r = Inl e \<and> s' = s"
  by (auto simp: pure_stmt_def)


lemma ret_error: "ret x s = (Inl e, s') \<longleftrightarrow> False"
  by (simp add: ret_def)

lemma log_call_error: "log_call ev s = (Inl e, s') \<longleftrightarrow> False"
  by (simp add: log_call_def)




































end
